theory Spec2Isabelle
  imports Main "HOL-Library.Word"
begin

unbundle bit_operations_syntax

section \<open>Platform values: bytes, strings, errors\<close>

text \<open>
  A byte is an 8-bit word. A JavaScript string is a sequence of UTF-16 code units.
  Every \<open>throw\<close> of the source or of the platform functions it calls is a value
  \<open>Inl e\<close> of a sum type.
\<close>

type_synonym byte = "8 word"
type_synonym bytes = "byte list"
type_synonym js_string = "16 word list"

datatype error = RangeError | TypeError | Error

text \<open>ASCII literals of the source, as code units.\<close>

definition lit :: "string \<Rightarrow> js_string" where
  "lit s = map (\<lambda>c. of_nat (of_char c)) s"

subsection \<open>\<open>Buffer.from(str, 'utf8')\<close>\<close>

text \<open>
  The UTF-8 encoding of a string of UTF-16 code units: a surrogate pair is one code
  point of four bytes, a surrogate without its partner is written as U+FFFD
  (\<open>EF BF BD\<close>).
\<close>

definition is_high :: "nat \<Rightarrow> bool" where
  "is_high c = (55296 \<le> c \<and> c < 56320)"

definition is_low :: "nat \<Rightarrow> bool" where
  "is_low c = (56320 \<le> c \<and> c < 57344)"

definition utf8_cp :: "nat \<Rightarrow> bytes" where
  "utf8_cp c =
     (if c < 128 then [of_nat c]
      else if c < 2048 then [of_nat (192 + c div 64), of_nat (128 + c mod 64)]
      else if c < 65536 then
        [of_nat (224 + c div 4096), of_nat (128 + c div 64 mod 64), of_nat (128 + c mod 64)]
      else
        [of_nat (240 + c div 262144), of_nat (128 + c div 4096 mod 64),
         of_nat (128 + c div 64 mod 64), of_nat (128 + c mod 64)])"

definition utf8_unit :: "nat \<Rightarrow> bytes" where
  "utf8_unit c = (if is_high c \<or> is_low c then [239, 191, 189] else utf8_cp c)"

fun utf8 :: "js_string \<Rightarrow> bytes" where
  "utf8 [] = []"
| "utf8 [u] = utf8_unit (unat u)"
| "utf8 (u # v # r) =
     (if is_high (unat u) \<and> is_low (unat v)
      then utf8_cp (65536 + (unat u - 55296) * 1024 + (unat v - 56320)) @ utf8 r
      else utf8_unit (unat u) @ utf8 (v # r))"

subsection \<open>Little-endian integers\<close>

fun le_bytes :: "nat \<Rightarrow> nat \<Rightarrow> bytes" where
  "le_bytes 0 v = []"
| "le_bytes (Suc n) v = of_nat (v mod 256) # le_bytes n (v div 256)"

text \<open>
  \<open>buf.writeUInt32LE(value, offset)\<close>: throws a RangeError when the value does not fit
  32 bits or the four bytes do not fit the buffer; otherwise the buffer with the four
  bytes replaced.
\<close>

definition writeUInt32LE :: "bytes \<Rightarrow> nat \<Rightarrow> nat \<Rightarrow> error + bytes" where
  "writeUInt32LE buf v off =
     (if v > 4294967295 \<or> off + 4 > length buf then Inl RangeError
      else Inr (take off buf @ le_bytes 4 v @ drop (off + 4) buf))"

section \<open>Request encoder\<close>

datatype KalloViewInstructionType =
  Initialize | CreateProduct | UpdateProduct | DeleteProduct | AddReview | UpdateReview
  | DailyClaim

fun tag :: "KalloViewInstructionType \<Rightarrow> byte" where
  "tag Initialize = 0"
| "tag CreateProduct = 1"
| "tag UpdateProduct = 2"
| "tag DeleteProduct = 3"
| "tag AddReview = 4"
| "tag UpdateReview = 5"
| "tag DailyClaim = 6"

definition encodeString :: "js_string \<Rightarrow> error + bytes" where
  "encodeString str =
     (let strBuffer = utf8 str in
      case writeUInt32LE (replicate 4 0) (length strBuffer) 0 of
        Inl e \<Rightarrow> Inl e
      | Inr lengthBuffer \<Rightarrow> Inr (concat [lengthBuffer, strBuffer]))"

text \<open>
  \<open>Buffer.from([score])\<close> stores the number modulo 256 (the typed-array conversion to
  an unsigned byte). The score is an integer-valued number here.
\<close>

definition byte_of_number :: "int \<Rightarrow> byte" where
  "byte_of_number n = word_of_int n"

definition encodeCreateProduct :: "js_string \<Rightarrow> js_string \<Rightarrow> error + bytes" where
  "encodeCreateProduct productId metadataUri =
     (let instruction = [tag CreateProduct] in
      case encodeString productId of
        Inl e \<Rightarrow> Inl e
      | Inr productIdBuffer \<Rightarrow>
          (case encodeString metadataUri of
             Inl e \<Rightarrow> Inl e
           | Inr metadataUriBuffer \<Rightarrow>
               Inr (concat [instruction, productIdBuffer, metadataUriBuffer])))"

definition encodeUpdateProduct :: "js_string \<Rightarrow> error + bytes" where
  "encodeUpdateProduct metadataUri =
     (let instruction = [tag UpdateProduct] in
      case encodeString metadataUri of
        Inl e \<Rightarrow> Inl e
      | Inr metadataUriBuffer \<Rightarrow> Inr (concat [instruction, metadataUriBuffer]))"

definition encodeAddReview :: "js_string \<Rightarrow> int \<Rightarrow> js_string \<Rightarrow> error + bytes" where
  "encodeAddReview productId score comment =
     (let instruction = [tag AddReview] in
      case encodeString productId of
        Inl e \<Rightarrow> Inl e
      | Inr productIdBuffer \<Rightarrow>
          (let scoreBuffer = [byte_of_number score] in
           case encodeString comment of
             Inl e \<Rightarrow> Inl e
           | Inr commentBuffer \<Rightarrow>
               Inr (concat [instruction, productIdBuffer, scoreBuffer, commentBuffer])))"

definition encodeUpdateReview :: "int \<Rightarrow> js_string \<Rightarrow> error + bytes" where
  "encodeUpdateReview score comment =
     (let instruction = [tag UpdateReview];
          scoreBuffer = [byte_of_number score] in
      case encodeString comment of
        Inl e \<Rightarrow> Inl e
      | Inr commentBuffer \<Rightarrow> Inr (concat [instruction, scoreBuffer, commentBuffer]))"

section \<open>Address deriver\<close>

text \<open>A public key is a 32-byte value; \<open>toBuffer\<close> gives its 32 bytes, big-endian.\<close>

type_synonym PublicKey = "256 word"

definition toBuffer :: "PublicKey \<Rightarrow> bytes" where
  "toBuffer k = rev (le_bytes 32 (unat k))"

text \<open>
  Modelled from the spec: the derivation function \<open>PublicKey.findProgramAddressSync\<close>
  belongs to the ledger library and is not part of the sources. The spec describes it:
  iterate a one-byte bump from 255 down to 0, append it to the seed list, hash
  (seeds..., bump, program identifier, domain-separation suffix), accept the first result
  that is off the signing curve, fail if no bump succeeds. The hash, the curve test and
  the suffix are parameters.
\<close>

definition candidate ::
  "(bytes \<Rightarrow> PublicKey) \<Rightarrow> bytes \<Rightarrow> bytes list \<Rightarrow> PublicKey \<Rightarrow> nat \<Rightarrow> PublicKey" where
  "candidate hash suffix seeds programId bump =
     hash (concat (seeds @ [ [of_nat bump] ]) @ toBuffer programId @ suffix)"

text \<open>
  Modelled from the spec: the search over the bump, from the given value down to 0; the
  first candidate off the curve is accepted, and the search fails below 0.
\<close>

function bump_search ::
  "(bytes \<Rightarrow> PublicKey) \<Rightarrow> (PublicKey \<Rightarrow> bool) \<Rightarrow> bytes \<Rightarrow> bytes list \<Rightarrow> PublicKey \<Rightarrow> nat
   \<Rightarrow> error + (PublicKey \<times> nat)" where
  "bump_search hash onCurve suffix seeds programId bump =
     (let address = candidate hash suffix seeds programId bump in
      if \<not> onCurve address then Inr (address, bump)
      else if bump = 0 then Inl Error
      else bump_search hash onCurve suffix seeds programId (bump - 1))"
  by pat_completeness auto
termination
  by (relation "measure (\<lambda>(hash, onCurve, suffix, seeds, programId, bump). bump)") auto

declare bump_search.simps [simp del]

text \<open>
  Modelled from the spec: the derivation starts the search at bump 255.
\<close>

definition findProgramAddressSync ::
  "(bytes \<Rightarrow> PublicKey) \<Rightarrow> (PublicKey \<Rightarrow> bool) \<Rightarrow> bytes \<Rightarrow> bytes list \<Rightarrow> PublicKey
   \<Rightarrow> error + (PublicKey \<times> nat)" where
  "findProgramAddressSync hash onCurve suffix seeds programId =
     bump_search hash onCurve suffix seeds programId 255"

subsection \<open>Seed constants and the five address helpers\<close>

text \<open>
  The helpers call the library's derivation function, here the parameter \<open>derive\<close>.
  \<open>Buffer.from(s)\<close> is the UTF-8 encoding of \<open>s\<close>.
\<close>

type_synonym deriver = "bytes list \<Rightarrow> PublicKey \<Rightarrow> error + (PublicKey \<times> nat)"

definition CONFIG_SEED :: js_string where
  "CONFIG_SEED = lit ''config''"

definition PRODUCT_SEED :: js_string where
  "PRODUCT_SEED = lit ''product''"

definition REVIEW_SEED :: js_string where
  "REVIEW_SEED = lit ''review''"

definition USER_SEED :: js_string where
  "USER_SEED = lit ''user''"

definition DAILY_CLAIMS_SEED :: js_string where
  "DAILY_CLAIMS_SEED = lit ''daily_claims''"

definition getConfigPDA :: "deriver \<Rightarrow> PublicKey \<Rightarrow> error + (PublicKey \<times> nat)" where
  "getConfigPDA derive programId = derive [utf8 CONFIG_SEED] programId"

definition getProductPDA ::
  "deriver \<Rightarrow> PublicKey \<Rightarrow> js_string \<Rightarrow> error + (PublicKey \<times> nat)" where
  "getProductPDA derive programId productId =
     derive [utf8 PRODUCT_SEED, utf8 productId] programId"

definition getReviewPDA ::
  "deriver \<Rightarrow> PublicKey \<Rightarrow> js_string \<Rightarrow> PublicKey \<Rightarrow> error + (PublicKey \<times> nat)" where
  "getReviewPDA derive programId productId reviewer =
     derive [utf8 REVIEW_SEED, utf8 productId, toBuffer reviewer] programId"

definition getUserPDA ::
  "deriver \<Rightarrow> PublicKey \<Rightarrow> PublicKey \<Rightarrow> error + (PublicKey \<times> nat)" where
  "getUserPDA derive programId user = derive [utf8 USER_SEED, toBuffer user] programId"

definition getDailyClaimsPDA ::
  "deriver \<Rightarrow> PublicKey \<Rightarrow> PublicKey \<Rightarrow> js_string \<Rightarrow> error + (PublicKey \<times> nat)" where
  "getDailyClaimsPDA derive programId user date =
     derive [utf8 DAILY_CLAIMS_SEED, toBuffer user, utf8 date] programId"

section \<open>Instruction builders\<close>

record AccountMeta =
  pubkey :: PublicKey
  isSigner :: bool
  isWritable :: bool

record TransactionInstruction =
  ix_keys :: "AccountMeta list"
  ix_programId :: PublicKey
  ix_data :: bytes

text \<open>
  The two well-known addresses of the ledger library, \<open>SystemProgram.programId\<close> and
  \<open>SYSVAR_CLOCK_PUBKEY\<close>, are parameters of the builders.
\<close>

record web3 =
  SystemProgram_programId :: PublicKey
  SYSVAR_CLOCK_PUBKEY :: PublicKey

definition bindE :: "error + 'a \<Rightarrow> ('a \<Rightarrow> error + 'b) \<Rightarrow> error + 'b" where
  "bindE m f = (case m of Inl e \<Rightarrow> Inl e | Inr x \<Rightarrow> f x)"

definition createInitializeInstruction ::
  "web3 \<Rightarrow> PublicKey \<Rightarrow> PublicKey \<Rightarrow> PublicKey \<Rightarrow> TransactionInstruction" where
  "createInitializeInstruction w programId authority configAccount =
     \<lparr>ix_keys =
        [\<lparr>pubkey = authority, isSigner = True, isWritable = True\<rparr>,
         \<lparr>pubkey = configAccount, isSigner = False, isWritable = True\<rparr>,
         \<lparr>pubkey = SystemProgram_programId w, isSigner = False, isWritable = False\<rparr>],
      ix_programId = programId,
      ix_data = [tag Initialize]\<rparr>"

definition createCreateProductInstruction ::
  "web3 \<Rightarrow> PublicKey \<Rightarrow> PublicKey \<Rightarrow> PublicKey \<Rightarrow> PublicKey \<Rightarrow> js_string \<Rightarrow> js_string
   \<Rightarrow> error + TransactionInstruction" where
  "createCreateProductInstruction w programId owner productAccount configAccount
       productId metadataUri =
     bindE (encodeCreateProduct productId metadataUri) (\<lambda>payload. Inr
     \<lparr>ix_keys =
        [\<lparr>pubkey = owner, isSigner = True, isWritable = True\<rparr>,
         \<lparr>pubkey = productAccount, isSigner = False, isWritable = True\<rparr>,
         \<lparr>pubkey = configAccount, isSigner = False, isWritable = True\<rparr>,
         \<lparr>pubkey = SystemProgram_programId w, isSigner = False, isWritable = False\<rparr>,
         \<lparr>pubkey = SYSVAR_CLOCK_PUBKEY w, isSigner = False, isWritable = False\<rparr>],
      ix_programId = programId,
      ix_data = payload\<rparr>)"

definition createUpdateProductInstruction ::
  "PublicKey \<Rightarrow> PublicKey \<Rightarrow> PublicKey \<Rightarrow> js_string \<Rightarrow> error + TransactionInstruction" where
  "createUpdateProductInstruction programId owner productAccount metadataUri =
     bindE (encodeUpdateProduct metadataUri) (\<lambda>payload. Inr
     \<lparr>ix_keys =
        [\<lparr>pubkey = owner, isSigner = True, isWritable = True\<rparr>,
         \<lparr>pubkey = productAccount, isSigner = False, isWritable = True\<rparr>],
      ix_programId = programId,
      ix_data = payload\<rparr>)"

definition createDeleteProductInstruction ::
  "PublicKey \<Rightarrow> PublicKey \<Rightarrow> PublicKey \<Rightarrow> TransactionInstruction" where
  "createDeleteProductInstruction programId owner productAccount =
     \<lparr>ix_keys =
        [\<lparr>pubkey = owner, isSigner = True, isWritable = True\<rparr>,
         \<lparr>pubkey = productAccount, isSigner = False, isWritable = True\<rparr>],
      ix_programId = programId,
      ix_data = [tag DeleteProduct]\<rparr>"

definition createAddReviewInstruction ::
  "web3 \<Rightarrow> PublicKey \<Rightarrow> PublicKey \<Rightarrow> PublicKey \<Rightarrow> PublicKey \<Rightarrow> PublicKey \<Rightarrow> PublicKey
   \<Rightarrow> js_string \<Rightarrow> int \<Rightarrow> js_string \<Rightarrow> error + TransactionInstruction" where
  "createAddReviewInstruction w programId reviewer productAccount reviewAccount userAccount
       configAccount productId score comment =
     bindE (encodeAddReview productId score comment) (\<lambda>payload. Inr
     \<lparr>ix_keys =
        [\<lparr>pubkey = reviewer, isSigner = True, isWritable = True\<rparr>,
         \<lparr>pubkey = productAccount, isSigner = False, isWritable = True\<rparr>,
         \<lparr>pubkey = reviewAccount, isSigner = False, isWritable = True\<rparr>,
         \<lparr>pubkey = userAccount, isSigner = False, isWritable = True\<rparr>,
         \<lparr>pubkey = configAccount, isSigner = False, isWritable = True\<rparr>,
         \<lparr>pubkey = SystemProgram_programId w, isSigner = False, isWritable = False\<rparr>,
         \<lparr>pubkey = SYSVAR_CLOCK_PUBKEY w, isSigner = False, isWritable = False\<rparr>],
      ix_programId = programId,
      ix_data = payload\<rparr>)"

definition createUpdateReviewInstruction ::
  "web3 \<Rightarrow> PublicKey \<Rightarrow> PublicKey \<Rightarrow> PublicKey \<Rightarrow> int \<Rightarrow> js_string
   \<Rightarrow> error + TransactionInstruction" where
  "createUpdateReviewInstruction w programId reviewer reviewAccount score comment =
     bindE (encodeUpdateReview score comment) (\<lambda>payload. Inr
     \<lparr>ix_keys =
        [\<lparr>pubkey = reviewer, isSigner = True, isWritable = True\<rparr>,
         \<lparr>pubkey = reviewAccount, isSigner = False, isWritable = True\<rparr>,
         \<lparr>pubkey = SYSVAR_CLOCK_PUBKEY w, isSigner = False, isWritable = False\<rparr>],
      ix_programId = programId,
      ix_data = payload\<rparr>)"

definition createDailyClaimInstruction ::
  "web3 \<Rightarrow> PublicKey \<Rightarrow> PublicKey \<Rightarrow> PublicKey \<Rightarrow> PublicKey \<Rightarrow> PublicKey
   \<Rightarrow> TransactionInstruction" where
  "createDailyClaimInstruction w programId user userAccount dailyClaimsAccount configAccount =
     \<lparr>ix_keys =
        [\<lparr>pubkey = user, isSigner = True, isWritable = True\<rparr>,
         \<lparr>pubkey = userAccount, isSigner = False, isWritable = True\<rparr>,
         \<lparr>pubkey = dailyClaimsAccount, isSigner = False, isWritable = True\<rparr>,
         \<lparr>pubkey = configAccount, isSigner = False, isWritable = True\<rparr>,
         \<lparr>pubkey = SystemProgram_programId w, isSigner = False, isWritable = False\<rparr>,
         \<lparr>pubkey = SYSVAR_CLOCK_PUBKEY w, isSigner = False, isWritable = False\<rparr>],
      ix_programId = programId,
      ix_data = [tag DailyClaim]\<rparr>"

text \<open>
  The account-role property: the first entry is the payer, signing and writable, and
  no other entry signs.
\<close>

definition roles_ok :: "PublicKey \<Rightarrow> AccountMeta list \<Rightarrow> bool" where
  "roles_ok payer ks =
     (case ks of
        [] \<Rightarrow> False
      | k # rest \<Rightarrow> pubkey k = payer \<and> isSigner k \<and> isWritable k
                     \<and> list_all (\<lambda>m. \<not> isSigner m) rest)"

text \<open>
  The layout of a payload in the words of the specification: the tag byte, then the
  arguments in declared order, a string as a 4-byte little-endian length prefix followed
  by its UTF-8 bytes, the score as one byte.
\<close>

definition string_field :: "js_string \<Rightarrow> bytes" where
  "string_field s = le_bytes 4 (length (utf8 s)) @ utf8 s"

definition fits :: "js_string \<Rightarrow> bool" where
  "fits s = (length (utf8 s) < 4294967296)"

section \<open>Record decoder\<close>

subsection \<open>Buffers and views\<close>

text \<open>
  A \<open>Buffer\<close> is a window of \<open>byteLength\<close> bytes, starting at \<open>byteOffset\<close>, on an
  \<open>ArrayBuffer\<close> that may be larger (the platform allocates small buffers inside a
  shared pool). \<open>data.slice\<close> and \<open>data.length\<close> are relative to the window;
  \<open>data.buffer\<close> is the whole \<open>ArrayBuffer\<close>, and \<open>new DataView(data.buffer)\<close> is a
  view of all of it, from its first byte.
\<close>

record Buffer =
  buffer :: bytes
  byteOffset :: nat
  byteLength :: nat

definition wf_Buffer :: "Buffer \<Rightarrow> bool" where
  "wf_Buffer d = (byteOffset d + byteLength d \<le> length (buffer d))"

definition exact :: "Buffer \<Rightarrow> bool" where
  "exact d = (byteOffset d = 0 \<and> byteLength d = length (buffer d))"

definition contents :: "Buffer \<Rightarrow> bytes" where
  "contents d = take (byteLength d) (drop (byteOffset d) (buffer d))"

text \<open>\<open>data.slice(start, stop)\<close> clamps both indices to the window.\<close>

definition Buffer_slice :: "Buffer \<Rightarrow> nat \<Rightarrow> nat \<Rightarrow> bytes" where
  "Buffer_slice d start stop =
     (let s = min start (byteLength d); e = min stop (byteLength d)
      in take (e - s) (drop s (contents d)))"

fun le_nat :: "bytes \<Rightarrow> nat" where
  "le_nat [] = 0"
| "le_nat (b # bs) = unat b + 256 * le_nat bs"

text \<open>
  The reads of a \<open>DataView\<close> (all little-endian in the source) throw a RangeError when
  they do not fit the view.
\<close>

definition view_read :: "bytes \<Rightarrow> nat \<Rightarrow> nat \<Rightarrow> error + bytes" where
  "view_read view off n =
     (if off + n \<le> length view then Inr (take n (drop off view)) else Inl RangeError)"

definition getUint8 :: "bytes \<Rightarrow> nat \<Rightarrow> error + nat" where
  "getUint8 view off = bindE (view_read view off 1) (\<lambda>bs. Inr (le_nat bs))"

definition getUint32 :: "bytes \<Rightarrow> nat \<Rightarrow> error + nat" where
  "getUint32 view off = bindE (view_read view off 4) (\<lambda>bs. Inr (le_nat bs))"

definition getBigUint64 :: "bytes \<Rightarrow> nat \<Rightarrow> error + int" where
  "getBigUint64 view off = bindE (view_read view off 8) (\<lambda>bs. Inr (int (le_nat bs)))"

definition getBigInt64 :: "bytes \<Rightarrow> nat \<Rightarrow> error + int" where
  "getBigInt64 view off =
     bindE (view_read view off 8)
       (\<lambda>bs. let v = int (le_nat bs)
             in Inr (if v < 9223372036854775808 then v else v - 18446744073709551616))"

text \<open>
  \<open>Number(b)\<close> for a 64-bit integer \<open>b\<close>: the nearest double, ties to the even
  significand; exact below \<open>2 ^ 53\<close>.
\<close>

fun bits :: "nat \<Rightarrow> nat" where
  "bits n = (if n = 0 then 0 else Suc (bits (n div 2)))"

declare bits.simps [simp del]

definition Number :: "int \<Rightarrow> int" where
  "Number b =
     (let a = nat \<bar>b\<bar> in
      if a < 9007199254740992 then b
      else
        let e = bits a - 53;
            q = a div 2 ^ e;
            r = a mod 2 ^ e;
            h = 2 ^ (e - 1);
            m = (if h < r \<or> (r = h \<and> odd q) then q + 1 else q)
        in sgn b * int (m * 2 ^ e))"

text \<open>
  \<open>new PublicKey(bytes)\<close> reads the bytes as a big-endian number and throws when it
  needs more than 32 bytes.
\<close>

definition new_PublicKey :: "bytes \<Rightarrow> error + PublicKey" where
  "new_PublicKey bs =
     (let bn = le_nat (rev bs) in if 2 ^ 256 \<le> bn then Inl Error else Inr (of_nat bn))"

subsection \<open>The five records\<close>

text \<open>The fields carry a prefix per record, since several records share field names.\<close>

record Config =
  cfg_isInitialized :: bool
  cfg_authority :: PublicKey
  cfg_totalProducts :: int
  cfg_totalReviews :: int
  cfg_totalUsers :: int
  cfg_totalTransactions :: int
  cfg_version :: nat

record Product =
  prd_productId :: js_string
  prd_owner :: PublicKey
  prd_totalScores :: nat
  prd_totalReviews :: nat
  prd_metadataUri :: js_string
  prd_status :: bool
  prd_createdAt :: int

record Review =
  rvw_productId :: js_string
  rvw_reviewer :: PublicKey
  rvw_score :: nat
  rvw_comment :: js_string
  rvw_createdAt :: int
  rvw_updatedAt :: int

record User =
  usr_userAddress :: PublicKey
  usr_dailyPoints :: int
  usr_reviewPoints :: int
  usr_lastClaimTime :: int
  usr_totalReviews :: nat

record DailyClaims =
  dcl_user :: PublicKey
  dcl_date :: js_string
  dcl_claimsCount :: nat

subsection \<open>The five decoders\<close>

text \<open>
  \<open>new TextDecoder().decode\<close> is the parameter \<open>decode\<close>. The fields of the object
  literal are evaluated in order, so the first read that throws decides the error.
\<close>

definition parseConfigData :: "Buffer \<Rightarrow> error + Config" where
  "parseConfigData data =
     (let view = buffer data in
      bindE (getUint8 view 0) (\<lambda>flag.
      bindE (new_PublicKey (Buffer_slice data 1 33)) (\<lambda>authority.
      bindE (getBigUint64 view 33) (\<lambda>totalProducts.
      bindE (getBigUint64 view 41) (\<lambda>totalReviews.
      bindE (getBigUint64 view 49) (\<lambda>totalUsers.
      bindE (getBigUint64 view 57) (\<lambda>totalTransactions.
      bindE (getUint8 view 65) (\<lambda>version.
      Inr \<lparr>cfg_isInitialized = (flag = 1),
           cfg_authority = authority,
           cfg_totalProducts = Number totalProducts,
           cfg_totalReviews = Number totalReviews,
           cfg_totalUsers = Number totalUsers,
           cfg_totalTransactions = Number totalTransactions,
           cfg_version = version\<rparr>))))))))"

definition parseProductData :: "(bytes \<Rightarrow> js_string) \<Rightarrow> Buffer \<Rightarrow> error + Product" where
  "parseProductData decode data =
     (let view = buffer data; offset = 1 in
      bindE (getUint32 view offset) (\<lambda>productIdLen.
      let offset = offset + 4;
          productId = decode (Buffer_slice data offset (offset + productIdLen));
          offset = offset + productIdLen in
      bindE (new_PublicKey (Buffer_slice data offset (offset + 32))) (\<lambda>owner.
      let offset = offset + 32 in
      bindE (getUint32 view offset) (\<lambda>totalScores.
      let offset = offset + 4 in
      bindE (getUint32 view offset) (\<lambda>totalReviews.
      let offset = offset + 4 in
      bindE (getUint32 view offset) (\<lambda>metadataUriLen.
      let offset = offset + 4;
          metadataUri = decode (Buffer_slice data offset (offset + metadataUriLen));
          offset = offset + metadataUriLen in
      bindE (getUint8 view offset) (\<lambda>statusByte.
      let status = (statusByte = 1);
          offset = offset + 1 in
      bindE (getBigInt64 view offset) (\<lambda>createdAt.
      Inr \<lparr>prd_productId = productId,
           prd_owner = owner,
           prd_totalScores = totalScores,
           prd_totalReviews = totalReviews,
           prd_metadataUri = metadataUri,
           prd_status = status,
           prd_createdAt = Number createdAt\<rparr>))))))))"

definition parseReviewData :: "(bytes \<Rightarrow> js_string) \<Rightarrow> Buffer \<Rightarrow> error + Review" where
  "parseReviewData decode data =
     (let view = buffer data; offset = 1 in
      bindE (getUint32 view offset) (\<lambda>productIdLen.
      let offset = offset + 4;
          productId = decode (Buffer_slice data offset (offset + productIdLen));
          offset = offset + productIdLen in
      bindE (new_PublicKey (Buffer_slice data offset (offset + 32))) (\<lambda>reviewer.
      let offset = offset + 32 in
      bindE (getUint8 view offset) (\<lambda>score.
      let offset = offset + 1 in
      bindE (getUint32 view offset) (\<lambda>commentLen.
      let offset = offset + 4;
          comment = decode (Buffer_slice data offset (offset + commentLen));
          offset = offset + commentLen in
      bindE (getBigInt64 view offset) (\<lambda>createdAt.
      let offset = offset + 8 in
      bindE (getBigInt64 view offset) (\<lambda>updatedAt.
      Inr \<lparr>rvw_productId = productId,
           rvw_reviewer = reviewer,
           rvw_score = score,
           rvw_comment = comment,
           rvw_createdAt = Number createdAt,
           rvw_updatedAt = Number updatedAt\<rparr>)))))))"

definition parseUserData :: "Buffer \<Rightarrow> error + User" where
  "parseUserData data =
     (let view = buffer data; offset = 1 in
      bindE (new_PublicKey (Buffer_slice data offset (offset + 32))) (\<lambda>userAddress.
      let offset = offset + 32 in
      bindE (getBigUint64 view offset) (\<lambda>dailyPoints.
      let offset = offset + 8 in
      bindE (getBigUint64 view offset) (\<lambda>reviewPoints.
      let offset = offset + 8 in
      bindE (getBigInt64 view offset) (\<lambda>lastClaimTime.
      let offset = offset + 8 in
      bindE (getUint32 view offset) (\<lambda>totalReviews.
      Inr \<lparr>usr_userAddress = userAddress,
           usr_dailyPoints = Number dailyPoints,
           usr_reviewPoints = Number reviewPoints,
           usr_lastClaimTime = Number lastClaimTime,
           usr_totalReviews = totalReviews\<rparr>))))))"

definition parseDailyClaimsData ::
  "(bytes \<Rightarrow> js_string) \<Rightarrow> Buffer \<Rightarrow> error + DailyClaims" where
  "parseDailyClaimsData decode data =
     (let view = buffer data; offset = 1 in
      bindE (new_PublicKey (Buffer_slice data offset (offset + 32))) (\<lambda>user.
      let offset = offset + 32 in
      bindE (getUint32 view offset) (\<lambda>dateLen.
      let offset = offset + 4;
          date = decode (Buffer_slice data offset (offset + dateLen));
          offset = offset + dateLen in
      bindE (getUint8 view offset) (\<lambda>claimsCount.
      Inr \<lparr>dcl_user = user, dcl_date = date, dcl_claimsCount = claimsCount\<rparr>))))"

section \<open>Session facade: the five lookups\<close>

text \<open>
  The platform and the ledger library, as far as the lookups use them: the derivation
  function, the text decoder, and the clock, given as the value of
  \<open>new Date().toISOString()\<close> at the time of the call.
\<close>

record platform =
  findProgramAddress :: deriver
  TextDecoder_decode :: "bytes \<Rightarrow> js_string"
  Date_toISOString :: js_string

record AccountInfo =
  ai_data :: Buffer

text \<open>
  The client holds the connection, of which the lookups use \<open>getAccountInfo\<close> (which
  may throw, or return null for a missing account), and the program identifier.
\<close>

record KalloViewClient =
  connection_getAccountInfo :: "PublicKey \<Rightarrow> error + AccountInfo option"
  client_programId :: PublicKey

text \<open>\<open>now.toISOString().split('T')[0]\<close>: the text before the first \<open>T\<close>.\<close>

definition getCurrentDateString :: "platform \<Rightarrow> js_string" where
  "getCurrentDateString P = takeWhile (\<lambda>c. c \<noteq> 84) (Date_toISOString P)"

text \<open>
  \<open>try { ... } catch (error) { console.error(msg, error); return null; }\<close>: the result is
  the list of lines written to the error console and the value returned or thrown.
\<close>

definition try_catch_null ::
  "string \<Rightarrow> error + 'a option \<Rightarrow> (string \<times> error) list \<times> (error + 'a option)" where
  "try_catch_null msg body =
     (case body of Inl e \<Rightarrow> ([(msg, e)], Inr None) | Inr r \<Rightarrow> ([], Inr r))"

definition getConfig ::
  "platform \<Rightarrow> KalloViewClient \<Rightarrow> (string \<times> error) list \<times> (error + Config option)" where
  "getConfig P this =
     try_catch_null ''Error fetching config:''
       (bindE (getConfigPDA (findProgramAddress P) (client_programId this)) (\<lambda>(configPDA, _).
        bindE (connection_getAccountInfo this configPDA) (\<lambda>accountInfo.
        case accountInfo of
          None \<Rightarrow> Inr None
        | Some info \<Rightarrow> bindE (parseConfigData (ai_data info)) (\<lambda>r. Inr (Some r)))))"

definition getProduct ::
  "platform \<Rightarrow> KalloViewClient \<Rightarrow> js_string
   \<Rightarrow> (string \<times> error) list \<times> (error + Product option)" where
  "getProduct P this productId =
     try_catch_null ''Error fetching product:''
       (bindE (getProductPDA (findProgramAddress P) (client_programId this) productId)
          (\<lambda>(productPDA, _).
        bindE (connection_getAccountInfo this productPDA) (\<lambda>accountInfo.
        case accountInfo of
          None \<Rightarrow> Inr None
        | Some info \<Rightarrow>
            bindE (parseProductData (TextDecoder_decode P) (ai_data info))
              (\<lambda>r. Inr (Some r)))))"

definition getReview ::
  "platform \<Rightarrow> KalloViewClient \<Rightarrow> js_string \<Rightarrow> PublicKey
   \<Rightarrow> (string \<times> error) list \<times> (error + Review option)" where
  "getReview P this productId reviewer =
     try_catch_null ''Error fetching review:''
       (bindE (getReviewPDA (findProgramAddress P) (client_programId this) productId reviewer)
          (\<lambda>(reviewPDA, _).
        bindE (connection_getAccountInfo this reviewPDA) (\<lambda>accountInfo.
        case accountInfo of
          None \<Rightarrow> Inr None
        | Some info \<Rightarrow>
            bindE (parseReviewData (TextDecoder_decode P) (ai_data info))
              (\<lambda>r. Inr (Some r)))))"

definition getUser ::
  "platform \<Rightarrow> KalloViewClient \<Rightarrow> PublicKey
   \<Rightarrow> (string \<times> error) list \<times> (error + User option)" where
  "getUser P this userAddress =
     try_catch_null ''Error fetching user:''
       (bindE (getUserPDA (findProgramAddress P) (client_programId this) userAddress)
          (\<lambda>(userPDA, _).
        bindE (connection_getAccountInfo this userPDA) (\<lambda>accountInfo.
        case accountInfo of
          None \<Rightarrow> Inr None
        | Some info \<Rightarrow> bindE (parseUserData (ai_data info)) (\<lambda>r. Inr (Some r)))))"

text \<open>
  The optional \<open>date\<close> is \<open>None\<close> when the argument is left out; \<open>date || ...\<close> takes
  the fallback for every falsy value, which for a string is also the empty string.
\<close>

definition getDailyClaims ::
  "platform \<Rightarrow> KalloViewClient \<Rightarrow> PublicKey \<Rightarrow> js_string option
   \<Rightarrow> (string \<times> error) list \<times> (error + DailyClaims option)" where
  "getDailyClaims P this userAddress date =
     try_catch_null ''Error fetching daily claims:''
       (let dateStr = (case date of
                         None \<Rightarrow> getCurrentDateString P
                       | Some d \<Rightarrow> if d = [] then getCurrentDateString P else d) in
        bindE (getDailyClaimsPDA (findProgramAddress P) (client_programId this)
                 userAddress dateStr) (\<lambda>(dailyClaimsPDA, _).
        bindE (connection_getAccountInfo this dailyClaimsPDA) (\<lambda>accountInfo.
        case accountInfo of
          None \<Rightarrow> Inr None
        | Some info \<Rightarrow>
            bindE (parseDailyClaimsData (TextDecoder_decode P) (ai_data info))
              (\<lambda>r. Inr (Some r)))))"

text \<open>
  The outcome of a lookup that ends in null, in terms of its three steps: the derivation
  throws, or the fetch throws, or the account is missing, or the decoder throws.
\<close>

definition collapsed ::
  "error + (PublicKey \<times> nat) \<Rightarrow> (PublicKey \<Rightarrow> error + AccountInfo option)
   \<Rightarrow> (Buffer \<Rightarrow> error + 'a) \<Rightarrow> bool" where
  "collapsed pda fetch parse =
     (case pda of
        Inl e \<Rightarrow> True
      | Inr (address, bump) \<Rightarrow>
          (case fetch address of
             Inl e \<Rightarrow> True
           | Inr None \<Rightarrow> True
           | Inr (Some info) \<Rightarrow> isl (parse (ai_data info))))"

text \<open>
  The whole outcome of a lookup, console lines and returned value, in terms of its three
  steps: an error thrown by the derivation, by the fetch or by the decoder is written to
  the console under the lookup's message and null is returned; a missing account gives
  null and no console line; otherwise the decoded record is returned.
\<close>

definition lookup_outcome ::
  "string \<Rightarrow> error + (PublicKey \<times> nat) \<Rightarrow> (PublicKey \<Rightarrow> error + AccountInfo option)
   \<Rightarrow> (Buffer \<Rightarrow> error + 'a) \<Rightarrow> (string \<times> error) list \<times> (error + 'a option)" where
  "lookup_outcome msg pda fetch parse =
     (case pda of
        Inl e \<Rightarrow> ([(msg, e)], Inr None)
      | Inr (address, bump) \<Rightarrow>
          (case fetch address of
             Inl e \<Rightarrow> ([(msg, e)], Inr None)
           | Inr None \<Rightarrow> ([], Inr None)
           | Inr (Some info) \<Rightarrow>
               (case parse (ai_data info) of
                  Inl e \<Rightarrow> ([(msg, e)], Inr None)
                | Inr r \<Rightarrow> ([], Inr (Some r)))))"

text \<open>
  Modelled from the spec: the contract of a derivation, as a relation between the inputs
  and an (address, bump) pair. The bump is at most 255, the address is the hash for that
  bump and is off the curve, and the hash for every greater bump up to 255 is on the
  curve (the first result off the curve, counting down, is the one accepted).
\<close>

definition derives ::
  "(bytes \<Rightarrow> PublicKey) \<Rightarrow> (PublicKey \<Rightarrow> bool) \<Rightarrow> bytes \<Rightarrow> bytes list \<Rightarrow> PublicKey
   \<Rightarrow> PublicKey \<times> nat \<Rightarrow> bool" where
  "derives hash onCurve suffix seeds programId r =
     (case r of
        (address, bump) \<Rightarrow>
          bump \<le> 255
          \<and> address = candidate hash suffix seeds programId bump
          \<and> \<not> onCurve address
          \<and> list_all (\<lambda>j. onCurve (candidate hash suffix seeds programId j))
               [Suc bump..<256])"

subsection \<open>Example collaborators\<close>

definition example_deriver :: deriver where
  "example_deriver seeds programId = Inr (programId + of_nat (length seeds), 255)"

definition example_decode :: "bytes \<Rightarrow> js_string" where
  "example_decode bs = map (\<lambda>b. of_nat (unat b)) bs"

definition example_platform :: platform where
  "example_platform =
     \<lparr>findProgramAddress = example_deriver,
      TextDecoder_decode = example_decode,
      Date_toISOString = lit ''2026-11-03T13:48:00.000Z''\<rparr>"

definition one_byte_account :: "PublicKey \<Rightarrow> error + AccountInfo option" where
  "one_byte_account address =
     Inr (Some \<lparr>ai_data = \<lparr>buffer = [1], byteOffset = 0, byteLength = 1\<rparr>\<rparr>)"

definition failing_transport :: "PublicKey \<Rightarrow> error + AccountInfo option" where
  "failing_transport address = Inl Error"

section \<open>Properties of the string encoder\<close>

lemmas utf8_eval = lit_def utf8_unit_def utf8_cp_def is_high_def is_low_def

text \<open>ASCII, two- and three-byte code points, a surrogate pair, a lone surrogate.\<close>

lemma utf8_examples:
  "utf8 (lit ''great'') = [103, 114, 101, 97, 116]"
  "utf8 [233, 8364] = [195, 169, 226, 130, 172]"
  "utf8 [55357, 56832] = [240, 159, 152, 128]"
  "utf8 [55357, 65] = [239, 191, 189, 65]"
  by (simp_all add: lit_def utf8_unit_def utf8_cp_def is_high_def is_low_def)

lemma le_bytes_length: "length (le_bytes n v) = n"
  by (induction n arbitrary: v) simp_all

lemma le_bytes_4:
  "le_bytes 4 v = [of_nat (v mod 256), of_nat (v div 256 mod 256),
                   of_nat (v div 65536 mod 256), of_nat (v div 16777216 mod 256)]"
proof -
  have four: "(4::nat) = Suc (Suc (Suc (Suc 0)))" by simp
  show ?thesis
    by (simp only: four) (simp add: div_mult2_eq [symmetric])
qed

text \<open>Reading little-endian bytes gives back the number that was written.\<close>

lemma le_nat_le_bytes: "le_nat (le_bytes n v) = v mod 256 ^ n"
proof (induction n arbitrary: v)
  case 0
  show ?case by simp
next
  case (Suc n)
  have "le_nat (le_bytes (Suc n) v) = v mod 256 + 256 * (v div 256 mod 256 ^ n)"
    by (simp add: Suc unat_of_nat)
  also have "\<dots> = v mod 256 ^ Suc n"
    by (simp add: mod_mult2_eq)
  finally show ?case .
qed

lemma encodeString_fits:
  "length (utf8 s) < 4294967296 \<Longrightarrow>
   encodeString s = Inr (le_bytes 4 (length (utf8 s)) @ utf8 s)"
  by (simp add: encodeString_def writeUInt32LE_def Let_def)

lemma encodeString_string_field: "fits s \<Longrightarrow> encodeString s = Inr (string_field s)"
  by (simp add: fits_def string_field_def encodeString_fits)

lemma encodeString_too_long: "\<not> fits s \<Longrightarrow> encodeString s = Inl RangeError"
  by (simp add: fits_def encodeString_def writeUInt32LE_def Let_def)

text \<open>
  Claim C4. For every string \<open>s\<close> the string encoder produces a 4-byte little-endian
  length prefix holding the byte length of the UTF-8 encoding of \<open>s\<close>, followed by
  exactly those bytes; the empty string gives four zero bytes and \<open>"x"\<close> gives
  \<open>01 00 00 00 78\<close>. The prefix is written by \<open>writeUInt32LE\<close>, which takes lengths
  below \<open>2 ^ 32\<close> (\<open>fits\<close>); no string the platform can hold is longer.
\<close>

theorem encodeString_layout:
  "(fits s \<longrightarrow>
      (\<exists>bs. encodeString s = Inr bs \<and> length bs = 4 + length (utf8 s)
           \<and> le_nat (take 4 bs) = length (utf8 s) \<and> drop 4 bs = utf8 s))
   \<and> encodeString [] = Inr [0, 0, 0, 0]
   \<and> encodeString (lit ''x'') = Inr [1, 0, 0, 0, 120]"
proof (intro conjI impI)
  assume f: "fits s"
  let ?n = "length (utf8 s)"
  have e: "encodeString s = Inr (le_bytes 4 ?n @ utf8 s)"
    using f by (simp add: fits_def encodeString_fits)
  have "le_nat (le_bytes 4 ?n) = ?n mod 256 ^ 4"
    by (rule le_nat_le_bytes)
  also have "\<dots> = ?n" using f by (simp add: fits_def)
  finally have p: "le_nat (le_bytes 4 ?n) = ?n" .
  show "\<exists>bs. encodeString s = Inr bs \<and> length bs = 4 + ?n
           \<and> le_nat (take 4 bs) = ?n \<and> drop 4 bs = utf8 s"
    using e p by (simp add: le_bytes_length)
next
  show "encodeString [] = Inr [0, 0, 0, 0]"
    by (simp add: encodeString_fits le_bytes_4)
next
  show "encodeString (lit ''x'') = Inr [1, 0, 0, 0, 120]"
    by (simp add: encodeString_fits le_bytes_4 utf8_eval)
qed

theorem encodeString_layout_witness:
  "fits (lit ''p1'') \<and> encodeString (lit ''p1'') = Inr [2, 0, 0, 0, 112, 49]
   \<and> le_nat (take 4 [2, 0, 0, 0, 112, 49]) = length (utf8 (lit ''p1''))"
proof -
  have f: "fits (lit ''p1'')" by (simp add: fits_def utf8_eval)
  have e: "encodeString (lit ''p1'') = Inr [2, 0, 0, 0, 112, 49]"
    by (simp add: encodeString_fits le_bytes_4 utf8_eval)
  from encodeString_layout [of "lit ''p1''"] f e
  have "le_nat (take 4 [2, 0, 0, 0, 112, 49]) = length (utf8 (lit ''p1''))"
    by auto
  with f e show ?thesis by simp
qed

section \<open>Properties of the request encoder\<close>

text \<open>
  Claim C3. Encoding AddReview with productId \<open>"p1"\<close>, score 5 and comment \<open>"great"\<close>
  gives exactly the bytes 4, 2 0 0 0, 'p' '1', 5, 5 0 0 0, 'g' 'r' 'e' 'a' 't'.
\<close>

theorem encodeAddReview_scenario:
  "encodeAddReview (lit ''p1'') 5 (lit ''great'')
   = Inr [4, 2, 0, 0, 0, 112, 49, 5, 5, 0, 0, 0, 103, 114, 101, 97, 116]"
  by (simp add: encodeAddReview_def byte_of_number_def encodeString_fits le_bytes_4 utf8_eval)

lemmas encoder_defs =
  encodeCreateProduct_def encodeUpdateProduct_def encodeAddReview_def encodeUpdateReview_def

lemma encodeCreateProduct_fits:
  "fits p \<Longrightarrow> fits m \<Longrightarrow>
   encodeCreateProduct p m = Inr (1 # string_field p @ string_field m)"
  by (simp add: encodeCreateProduct_def encodeString_string_field)

lemma encodeUpdateProduct_fits:
  "fits m \<Longrightarrow> encodeUpdateProduct m = Inr (2 # string_field m)"
  by (simp add: encodeUpdateProduct_def encodeString_string_field)

lemma encodeAddReview_fits:
  "fits p \<Longrightarrow> fits c \<Longrightarrow>
   encodeAddReview p score c
   = Inr (4 # string_field p @ byte_of_number score # string_field c)"
  by (simp add: encodeAddReview_def encodeString_string_field)

lemma encodeUpdateReview_fits:
  "fits c \<Longrightarrow> encodeUpdateReview score c = Inr (5 # byte_of_number score # string_field c)"
  by (simp add: encodeUpdateReview_def encodeString_string_field)

lemma encoder_tags:
  "encodeCreateProduct p m = Inr bs \<Longrightarrow> bs \<noteq> [] \<and> hd bs = 1"
  "encodeUpdateProduct m = Inr bs \<Longrightarrow> bs \<noteq> [] \<and> hd bs = 2"
  "encodeAddReview p score c = Inr bs \<Longrightarrow> bs \<noteq> [] \<and> hd bs = 4"
  "encodeUpdateReview score c = Inr bs \<Longrightarrow> bs \<noteq> [] \<and> hd bs = 5"
  by (auto simp: encoder_defs split: sum.splits)

text \<open>
  Claim C5. For every operation and all argument values, the byte at offset 0 of the
  payload is the operation's tag (0 Initialize, 1 CreateProduct, 2 UpdateProduct,
  3 DeleteProduct, 4 AddReview, 5 UpdateReview, 6 DailyClaim), and the remaining bytes
  are the arguments in declared order without padding. The three operations without
  arguments encode to the tag alone; a payload with string arguments exists when the
  strings fit their length prefix.
\<close>

theorem payload_layout:
  "ix_data (createInitializeInstruction w programId authority configAccount) = [0]
   \<and> ix_data (createDeleteProductInstruction programId owner productAccount) = [3]
   \<and> ix_data (createDailyClaimInstruction w programId user userAccount dailyClaimsAccount
                configAccount) = [6]
   \<and> (\<forall>bs. encodeCreateProduct p m = Inr bs \<longrightarrow> bs \<noteq> [] \<and> hd bs = 1)
   \<and> (\<forall>bs. encodeUpdateProduct m = Inr bs \<longrightarrow> bs \<noteq> [] \<and> hd bs = 2)
   \<and> (\<forall>bs. encodeAddReview p score c = Inr bs \<longrightarrow> bs \<noteq> [] \<and> hd bs = 4)
   \<and> (\<forall>bs. encodeUpdateReview score c = Inr bs \<longrightarrow> bs \<noteq> [] \<and> hd bs = 5)
   \<and> (fits p \<and> fits m \<longrightarrow>
        encodeCreateProduct p m = Inr (1 # string_field p @ string_field m))
   \<and> (fits m \<longrightarrow> encodeUpdateProduct m = Inr (2 # string_field m))
   \<and> (fits p \<and> fits c \<longrightarrow>
        encodeAddReview p score c
        = Inr (4 # string_field p @ byte_of_number score # string_field c))
   \<and> (fits c \<longrightarrow>
        encodeUpdateReview score c = Inr (5 # byte_of_number score # string_field c))"
proof -
  have tags:
    "\<forall>bs. encodeCreateProduct p m = Inr bs \<longrightarrow> bs \<noteq> [] \<and> hd bs = 1"
    "\<forall>bs. encodeUpdateProduct m = Inr bs \<longrightarrow> bs \<noteq> [] \<and> hd bs = 2"
    "\<forall>bs. encodeAddReview p score c = Inr bs \<longrightarrow> bs \<noteq> [] \<and> hd bs = 4"
    "\<forall>bs. encodeUpdateReview score c = Inr bs \<longrightarrow> bs \<noteq> [] \<and> hd bs = 5"
    using encoder_tags by blast+
  have fixed:
    "ix_data (createInitializeInstruction w programId authority configAccount) = [0]"
    "ix_data (createDeleteProductInstruction programId owner productAccount) = [3]"
    "ix_data (createDailyClaimInstruction w programId user userAccount dailyClaimsAccount
                configAccount) = [6]"
    by (simp_all add: createInitializeInstruction_def createDeleteProductInstruction_def
        createDailyClaimInstruction_def)
  show ?thesis
    using tags fixed
    by (simp add: encodeCreateProduct_fits encodeUpdateProduct_fits
        encodeAddReview_fits encodeUpdateReview_fits)
qed

lemma string_field_p1: "string_field (lit ''p1'') = [2, 0, 0, 0, 112, 49]"
  by (simp add: string_field_def le_bytes_4 utf8_eval)

lemma string_field_uri: "string_field (lit ''u'') = [1, 0, 0, 0, 117]"
  by (simp add: string_field_def le_bytes_4 utf8_eval)

lemma fits_p1: "fits (lit ''p1'')"
  by (simp add: fits_def utf8_eval)

lemma fits_uri: "fits (lit ''u'')"
  by (simp add: fits_def utf8_eval)

theorem payload_layout_witness:
  "fits (lit ''p1'') \<and> fits (lit ''u'')
   \<and> encodeCreateProduct (lit ''p1'') (lit ''u'') = Inr [1, 2, 0, 0, 0, 112, 49, 1, 0, 0, 0, 117]
   \<and> hd [1, 2, 0, 0, 0, 112, 49, 1, 0, 0, 0, 117] = (1 :: byte)
   \<and> encodeUpdateProduct (lit ''u'') = Inr [2, 1, 0, 0, 0, 117]
   \<and> encodeAddReview (lit ''p1'') 9 (lit ''u'') = Inr [4, 2, 0, 0, 0, 112, 49, 9, 1, 0, 0, 0, 117]
   \<and> encodeUpdateReview 9 (lit ''u'') = Inr [5, 9, 1, 0, 0, 0, 117]"
  using payload_layout [of _ _ _ _ _ _ _ _ _ "lit ''p1''" "lit ''u''" 9 "lit ''u''"]
  by (simp add: fits_p1 fits_uri string_field_p1 string_field_uri byte_of_number_def)

text \<open>
  Claim C8. For every integer score given to the AddReview or UpdateReview encoder, the
  score byte of the payload is the score modulo 256: a score out of range is wrapped,
  not rejected.
\<close>

theorem score_byte_wraps:
  "(fits p \<and> fits c \<longrightarrow>
      (\<exists>b. encodeAddReview p score c = Inr (4 # string_field p @ b # string_field c)
          \<and> uint b = score mod 256))
   \<and> (fits c \<longrightarrow>
      (\<exists>b. encodeUpdateReview score c = Inr (5 # b # string_field c)
          \<and> uint b = score mod 256))"
  by (simp add: encodeAddReview_fits encodeUpdateReview_fits byte_of_number_def uint_word_of_int)

theorem score_byte_wraps_witness:
  "fits (lit ''p1'') \<and> fits (lit ''u'')
   \<and> (\<exists>b. encodeAddReview (lit ''p1'') 261 (lit ''u'')
            = Inr (4 # string_field (lit ''p1'') @ b # string_field (lit ''u''))
          \<and> uint b = 5)
   \<and> (\<exists>b. encodeUpdateReview (-1) (lit ''u'') = Inr (5 # b # string_field (lit ''u''))
          \<and> uint b = 255)"
  using score_byte_wraps [of "lit ''p1''" "lit ''u''" 261]
        score_byte_wraps [of _ "lit ''u''" "-1"]
  by (simp add: fits_p1 fits_uri)

section \<open>Properties of the instruction builders\<close>

lemma bindE_Inr_iff: "bindE m f = Inr y \<longleftrightarrow> (\<exists>x. m = Inr x \<and> f x = Inr y)"
  by (cases m) (simp_all add: bindE_def)

lemma bindE_simps [simp]: "bindE (Inl e) f = Inl e" "bindE (Inr x) f = f x"
  by (simp_all add: bindE_def)

lemmas builder_defs =
  createInitializeInstruction_def createCreateProductInstruction_def
  createUpdateProductInstruction_def createDeleteProductInstruction_def
  createAddReviewInstruction_def createUpdateReviewInstruction_def
  createDailyClaimInstruction_def

lemma encoders_return_iff:
  "(\<exists>bs. encodeCreateProduct p m = Inr bs) \<longleftrightarrow> fits p \<and> fits m"
  "(\<exists>bs. encodeUpdateProduct m = Inr bs) \<longleftrightarrow> fits m"
  "(\<exists>bs. encodeAddReview p score c = Inr bs) \<longleftrightarrow> fits p \<and> fits c"
  "(\<exists>bs. encodeUpdateReview score c = Inr bs) \<longleftrightarrow> fits c"
proof -
  have s: "\<And>s. (\<exists>bs. encodeString s = Inr bs) \<longleftrightarrow> fits s"
    using encodeString_string_field encodeString_too_long by (metis sum.distinct(1))
  have n: "\<And>s. \<not> fits s \<Longrightarrow> encodeString s = Inl RangeError"
    by (rule encodeString_too_long)
  show "(\<exists>bs. encodeCreateProduct p m = Inr bs) \<longleftrightarrow> fits p \<and> fits m"
    by (cases "fits p"; cases "fits m")
       (simp_all add: encodeCreateProduct_def encodeString_string_field n)
  show "(\<exists>bs. encodeUpdateProduct m = Inr bs) \<longleftrightarrow> fits m"
    by (cases "fits m") (simp_all add: encodeUpdateProduct_def encodeString_string_field n)
  show "(\<exists>bs. encodeAddReview p score c = Inr bs) \<longleftrightarrow> fits p \<and> fits c"
    by (cases "fits p"; cases "fits c")
       (simp_all add: encodeAddReview_def encodeString_string_field n)
  show "(\<exists>bs. encodeUpdateReview score c = Inr bs) \<longleftrightarrow> fits c"
    by (cases "fits c") (simp_all add: encodeUpdateReview_def encodeString_string_field n)
qed

lemma bindE_returns_iff:
  "(\<exists>y. bindE m (\<lambda>x. Inr (g x)) = Inr y) \<longleftrightarrow> (\<exists>x. m = Inr x)"
  by (cases m) simp_all

text \<open>
  Claim C10. In each of the seven instruction builders the account-role list starts with
  the payer, with isSigner and isWritable true, and every other entry has isSigner
  false, for all argument values. The three builders without string arguments always
  build their instruction; each of the other four builds one, with such a role list,
  exactly when its strings fit their length prefix (\<open>fits\<close>), which holds of every string
  the platform can hold.
\<close>

theorem builders_roles:
  "roles_ok authority
     (ix_keys (createInitializeInstruction w programId authority configAccount))
   \<and> (\<forall>ix. createCreateProductInstruction w programId owner productAccount configAccount
             p m = Inr ix \<longrightarrow> roles_ok owner (ix_keys ix))
   \<and> (\<forall>ix. createUpdateProductInstruction programId owner productAccount m = Inr ix
         \<longrightarrow> roles_ok owner (ix_keys ix))
   \<and> roles_ok owner (ix_keys (createDeleteProductInstruction programId owner productAccount))
   \<and> (\<forall>ix. createAddReviewInstruction w programId reviewer productAccount reviewAccount
             userAccount configAccount p score c = Inr ix
         \<longrightarrow> roles_ok reviewer (ix_keys ix))
   \<and> (\<forall>ix. createUpdateReviewInstruction w programId reviewer reviewAccount score c = Inr ix
         \<longrightarrow> roles_ok reviewer (ix_keys ix))
   \<and> roles_ok user
       (ix_keys (createDailyClaimInstruction w programId user userAccount dailyClaimsAccount
          configAccount))
   \<and> ((\<exists>ix. createCreateProductInstruction w programId owner productAccount configAccount
              p m = Inr ix \<and> roles_ok owner (ix_keys ix)) \<longleftrightarrow> fits p \<and> fits m)
   \<and> ((\<exists>ix. createUpdateProductInstruction programId owner productAccount m = Inr ix
              \<and> roles_ok owner (ix_keys ix)) \<longleftrightarrow> fits m)
   \<and> ((\<exists>ix. createAddReviewInstruction w programId reviewer productAccount reviewAccount
              userAccount configAccount p score c = Inr ix
              \<and> roles_ok reviewer (ix_keys ix)) \<longleftrightarrow> fits p \<and> fits c)
   \<and> ((\<exists>ix. createUpdateReviewInstruction w programId reviewer reviewAccount score c = Inr ix
              \<and> roles_ok reviewer (ix_keys ix)) \<longleftrightarrow> fits c)"
proof -
  have old:
    "roles_ok authority
       (ix_keys (createInitializeInstruction w programId authority configAccount))"
    "\<forall>ix. createCreateProductInstruction w programId owner productAccount configAccount
             p m = Inr ix \<longrightarrow> roles_ok owner (ix_keys ix)"
    "\<forall>ix. createUpdateProductInstruction programId owner productAccount m = Inr ix
         \<longrightarrow> roles_ok owner (ix_keys ix)"
    "roles_ok owner (ix_keys (createDeleteProductInstruction programId owner productAccount))"
    "\<forall>ix. createAddReviewInstruction w programId reviewer productAccount reviewAccount
             userAccount configAccount p score c = Inr ix
         \<longrightarrow> roles_ok reviewer (ix_keys ix)"
    "\<forall>ix. createUpdateReviewInstruction w programId reviewer reviewAccount score c = Inr ix
         \<longrightarrow> roles_ok reviewer (ix_keys ix)"
    "roles_ok user
       (ix_keys (createDailyClaimInstruction w programId user userAccount dailyClaimsAccount
          configAccount))"
    by (auto simp: builder_defs roles_ok_def bindE_Inr_iff)
  have ret:
    "(\<exists>ix. createCreateProductInstruction w programId owner productAccount configAccount
              p m = Inr ix) \<longleftrightarrow> fits p \<and> fits m"
    "(\<exists>ix. createUpdateProductInstruction programId owner productAccount m = Inr ix)
       \<longleftrightarrow> fits m"
    "(\<exists>ix. createAddReviewInstruction w programId reviewer productAccount reviewAccount
              userAccount configAccount p score c = Inr ix) \<longleftrightarrow> fits p \<and> fits c"
    "(\<exists>ix. createUpdateReviewInstruction w programId reviewer reviewAccount score c = Inr ix)
       \<longleftrightarrow> fits c"
    by (simp_all add: builder_defs bindE_returns_iff encoders_return_iff)
  show ?thesis
    using old ret by blast
qed

theorem builders_roles_witness:
  "fits (lit ''p1'') \<and> fits (lit ''u'')
   \<and> (\<exists>ix. createCreateProductInstruction
              \<lparr>SystemProgram_programId = 0, SYSVAR_CLOCK_PUBKEY = 6\<rparr> 1 2 3 7
              (lit ''p1'') (lit ''u'') = Inr ix
          \<and> roles_ok 2 (ix_keys ix))
   \<and> (\<exists>ix. createUpdateProductInstruction 1 2 3 (lit ''u'') = Inr ix
          \<and> roles_ok 2 (ix_keys ix))
   \<and> (\<exists>ix. createAddReviewInstruction
              \<lparr>SystemProgram_programId = 0, SYSVAR_CLOCK_PUBKEY = 6\<rparr> 1 8 3 4 5 7
              (lit ''p1'') 9 (lit ''u'') = Inr ix
          \<and> roles_ok 8 (ix_keys ix))
   \<and> (\<exists>ix. createUpdateReviewInstruction
              \<lparr>SystemProgram_programId = 0, SYSVAR_CLOCK_PUBKEY = 6\<rparr> 1 8 4 9 (lit ''u'')
              = Inr ix
          \<and> roles_ok 8 (ix_keys ix))
   \<and> createAddReviewInstruction \<lparr>SystemProgram_programId = 0, SYSVAR_CLOCK_PUBKEY = 6\<rparr>
        1 8 3 4 5 7 (lit ''p1'') 9 (lit ''u'')
      = Inr \<lparr>ix_keys =
               [\<lparr>pubkey = 8, isSigner = True, isWritable = True\<rparr>,
                \<lparr>pubkey = 3, isSigner = False, isWritable = True\<rparr>,
                \<lparr>pubkey = 4, isSigner = False, isWritable = True\<rparr>,
                \<lparr>pubkey = 5, isSigner = False, isWritable = True\<rparr>,
                \<lparr>pubkey = 7, isSigner = False, isWritable = True\<rparr>,
                \<lparr>pubkey = 0, isSigner = False, isWritable = False\<rparr>,
                \<lparr>pubkey = 6, isSigner = False, isWritable = False\<rparr>],
             ix_programId = 1,
             ix_data = [4, 2, 0, 0, 0, 112, 49, 9, 1, 0, 0, 0, 117]\<rparr>"
proof -
  let ?w = "\<lparr>SystemProgram_programId = 0, SYSVAR_CLOCK_PUBKEY = 6\<rparr>"
  have e: "createAddReviewInstruction ?w 1 8 3 4 5 7 (lit ''p1'') 9 (lit ''u'')
      = Inr \<lparr>ix_keys =
               [\<lparr>pubkey = 8, isSigner = True, isWritable = True\<rparr>,
                \<lparr>pubkey = 3, isSigner = False, isWritable = True\<rparr>,
                \<lparr>pubkey = 4, isSigner = False, isWritable = True\<rparr>,
                \<lparr>pubkey = 5, isSigner = False, isWritable = True\<rparr>,
                \<lparr>pubkey = 7, isSigner = False, isWritable = True\<rparr>,
                \<lparr>pubkey = 0, isSigner = False, isWritable = False\<rparr>,
                \<lparr>pubkey = 6, isSigner = False, isWritable = False\<rparr>],
             ix_programId = 1,
             ix_data = [4, 2, 0, 0, 0, 112, 49, 9, 1, 0, 0, 0, 117]\<rparr>"
    by (simp add: createAddReviewInstruction_def encodeAddReview_fits fits_p1 fits_uri
        string_field_p1 string_field_uri byte_of_number_def)
  note t = builders_roles [where w = ?w and programId = 1 and owner = 2 and reviewer = 8
      and productAccount = 3 and reviewAccount = 4 and userAccount = 5
      and configAccount = 7 and p = "lit ''p1''" and m = "lit ''u''" and score = 9
      and c = "lit ''u''"]
  have r:
    "\<exists>ix. createCreateProductInstruction ?w 1 2 3 7 (lit ''p1'') (lit ''u'') = Inr ix
          \<and> roles_ok 2 (ix_keys ix)"
    "\<exists>ix. createUpdateProductInstruction 1 2 3 (lit ''u'') = Inr ix
          \<and> roles_ok 2 (ix_keys ix)"
    "\<exists>ix. createAddReviewInstruction ?w 1 8 3 4 5 7 (lit ''p1'') 9 (lit ''u'') = Inr ix
          \<and> roles_ok 8 (ix_keys ix)"
    "\<exists>ix. createUpdateReviewInstruction ?w 1 8 4 9 (lit ''u'') = Inr ix
          \<and> roles_ok 8 (ix_keys ix)"
    using t fits_p1 fits_uri by blast+
  show ?thesis
    using r e fits_p1 fits_uri by blast
qed

lemma builders_return:
  "fits p \<Longrightarrow> fits m \<Longrightarrow>
   \<exists>ix. createCreateProductInstruction w programId owner productAccount configAccount p m
        = Inr ix"
  "fits m \<Longrightarrow> \<exists>ix. createUpdateProductInstruction programId owner productAccount m = Inr ix"
  "fits p \<Longrightarrow> fits c \<Longrightarrow>
   \<exists>ix. createAddReviewInstruction w programId reviewer productAccount reviewAccount
          userAccount configAccount p score c = Inr ix"
  "fits c \<Longrightarrow>
   \<exists>ix. createUpdateReviewInstruction w programId reviewer reviewAccount score c = Inr ix"
  by (simp_all add: builder_defs encodeCreateProduct_fits encodeUpdateProduct_fits
      encodeAddReview_fits encodeUpdateReview_fits)

section \<open>Properties of the address deriver\<close>

lemma toBuffer_length: "length (toBuffer k) = 32"
  by (simp add: toBuffer_def le_bytes_length)

lemmas seed_defs =
  CONFIG_SEED_def PRODUCT_SEED_def REVIEW_SEED_def USER_SEED_def DAILY_CLAIMS_SEED_def

text \<open>
  Claim C6. Each record kind's address is derived from exactly its fixed seed list, the
  namespace literal encoded as UTF-8: Config from ["config"], Product from
  ["product", productId], Review from ["review", productId, reviewerAddress], User from
  ["user", userAddress], DailyClaims from ["daily_claims", userAddress, dateString], in
  those orders.
\<close>

theorem pda_seeds:
  "getConfigPDA derive programId = derive [ [99, 111, 110, 102, 105, 103] ] programId
   \<and> getProductPDA derive programId p
       = derive [ [112, 114, 111, 100, 117, 99, 116], utf8 p] programId
   \<and> getReviewPDA derive programId p reviewer
       = derive [ [114, 101, 118, 105, 101, 119], utf8 p, toBuffer reviewer] programId
   \<and> getUserPDA derive programId user
       = derive [ [117, 115, 101, 114], toBuffer user] programId
   \<and> getDailyClaimsPDA derive programId user d
       = derive [ [100, 97, 105, 108, 121, 95, 99, 108, 97, 105, 109, 115],
                 toBuffer user, utf8 d] programId
   \<and> utf8 (lit ''config'') = [99, 111, 110, 102, 105, 103]
   \<and> utf8 (lit ''product'') = [112, 114, 111, 100, 117, 99, 116]
   \<and> utf8 (lit ''review'') = [114, 101, 118, 105, 101, 119]
   \<and> utf8 (lit ''user'') = [117, 115, 101, 114]
   \<and> utf8 (lit ''daily_claims'') = [100, 97, 105, 108, 121, 95, 99, 108, 97, 105, 109, 115]"
  by (simp add: getConfigPDA_def getProductPDA_def getReviewPDA_def getUserPDA_def
      getDailyClaimsPDA_def seed_defs utf8_eval)

lemma bump_search_Inr:
  "bump_search h c sfx seeds pid b = Inr (a, k) \<Longrightarrow>
   k \<le> b \<and> a = candidate h sfx seeds pid k \<and> \<not> c a
   \<and> (\<forall>j. k < j \<and> j \<le> b \<longrightarrow> c (candidate h sfx seeds pid j))"
proof (induction h c sfx seeds pid b rule: bump_search.induct)
  case (1 h c sfx seeds pid b)
  show ?case
  proof (cases "c (candidate h sfx seeds pid b)")
    case False
    with "1.prems" show ?thesis
      by (subst (asm) bump_search.simps) (auto simp: Let_def)
  next
    case True
    show ?thesis
    proof (cases "b = 0")
      case True
      with \<open>c (candidate h sfx seeds pid b)\<close> "1.prems" show ?thesis
        by (subst (asm) bump_search.simps) (simp add: Let_def)
    next
      case False
      with \<open>c (candidate h sfx seeds pid b)\<close> "1.prems"
      have r: "bump_search h c sfx seeds pid (b - 1) = Inr (a, k)"
        by (subst (asm) bump_search.simps) (simp add: Let_def)
      have ih: "k \<le> b - 1 \<and> a = candidate h sfx seeds pid k \<and> \<not> c a
        \<and> (\<forall>j. k < j \<and> j \<le> b - 1 \<longrightarrow> c (candidate h sfx seeds pid j))"
        using "1.IH" [OF refl _ False r] \<open>c (candidate h sfx seeds pid b)\<close> by blast
      show ?thesis
      proof (intro conjI allI impI)
        show "k \<le> b" using ih by arith
        show "a = candidate h sfx seeds pid k" using ih by blast
        show "\<not> c a" using ih by blast
      next
        fix j assume j: "k < j \<and> j \<le> b"
        show "c (candidate h sfx seeds pid j)"
        proof (cases "j = b")
          case True
          then show ?thesis using \<open>c (candidate h sfx seeds pid b)\<close> by simp
        next
          case False
          then have "j \<le> b - 1" using j by arith
          then show ?thesis using ih j by blast
        qed
      qed
    qed
  qed
qed

lemma bump_search_complete:
  "k \<le> b \<Longrightarrow> \<not> c (candidate h sfx seeds pid k) \<Longrightarrow>
   (\<forall>j. k < j \<and> j \<le> b \<longrightarrow> c (candidate h sfx seeds pid j)) \<Longrightarrow>
   bump_search h c sfx seeds pid b = Inr (candidate h sfx seeds pid k, k)"
proof (induction h c sfx seeds pid b rule: bump_search.induct)
  case (1 h c sfx seeds pid b)
  show ?case
  proof (cases "k = b")
    case True
    with "1.prems" show ?thesis
      by (subst bump_search.simps) (simp add: Let_def)
  next
    case False
    with "1.prems" have kb: "k < b" by arith
    then have cb: "c (candidate h sfx seeds pid b)" using "1.prems" by blast
    have b0: "b \<noteq> 0" using kb by arith
    have k1: "k \<le> b - 1" using kb by arith
    have hi: "\<forall>j. k < j \<and> j \<le> b - 1 \<longrightarrow> c (candidate h sfx seeds pid j)"
    proof (intro allI impI)
      fix j assume "k < j \<and> j \<le> b - 1"
      then have "k < j \<and> j \<le> b" by arith
      then show "c (candidate h sfx seeds pid j)" using "1.prems" by blast
    qed
    have "bump_search h c sfx seeds pid (b - 1) = Inr (candidate h sfx seeds pid k, k)"
      using "1.IH" [OF refl _ b0 k1 "1.prems"(2) hi] cb by blast
    then show ?thesis
      using cb b0 by (subst bump_search.simps) (simp add: Let_def)
  qed
qed

lemma derives_iff:
  "derives h c sfx seeds pid (a, k) \<longleftrightarrow>
   k \<le> 255 \<and> a = candidate h sfx seeds pid k \<and> \<not> c a
   \<and> (\<forall>j. k < j \<and> j \<le> 255 \<longrightarrow> c (candidate h sfx seeds pid j))"
proof -
  have "(\<forall>j\<in>set [Suc k..<256]. c (candidate h sfx seeds pid j))
        \<longleftrightarrow> (\<forall>j. k < j \<and> j \<le> 255 \<longrightarrow> c (candidate h sfx seeds pid j))"
    by (auto simp: less_Suc_eq_le Suc_le_eq)
  then show ?thesis
    by (simp add: derives_def list_all_iff)
qed

lemma derives_unique:
  assumes "derives h c sfx seeds pid r" and "derives h c sfx seeds pid r'"
  shows "r = r'"
proof -
  obtain a k a' k' where r: "r = (a, k)" and r': "r' = (a', k')"
    by (cases r, cases r') blast
  from assms have d: "k \<le> 255" "a = candidate h sfx seeds pid k" "\<not> c a"
      "\<forall>j. k < j \<and> j \<le> 255 \<longrightarrow> c (candidate h sfx seeds pid j)"
    and d': "k' \<le> 255" "a' = candidate h sfx seeds pid k'" "\<not> c a'"
      "\<forall>j. k' < j \<and> j \<le> 255 \<longrightarrow> c (candidate h sfx seeds pid j)"
    unfolding r r' derives_iff by blast+
  have "\<not> k < k'" using d(4) d'(1,2,3) by blast
  moreover have "\<not> k' < k" using d'(4) d(1,2,3) by blast
  ultimately have "k = k'" by arith
  then show ?thesis using r r' d(2) d'(2) by simp
qed

lemma findProgramAddressSync_derives:
  "findProgramAddressSync h c sfx seeds pid = Inr r \<longleftrightarrow> derives h c sfx seeds pid r"
proof (cases r)
  case (Pair a k)
  show ?thesis
  proof
    assume "findProgramAddressSync h c sfx seeds pid = Inr r"
    then have "bump_search h c sfx seeds pid 255 = Inr (a, k)"
      by (simp add: findProgramAddressSync_def Pair)
    from bump_search_Inr [OF this] show "derives h c sfx seeds pid r"
      unfolding Pair derives_iff by blast
  next
    assume "derives h c sfx seeds pid r"
    then have d: "k \<le> 255" "a = candidate h sfx seeds pid k" "\<not> c (candidate h sfx seeds pid k)"
      "\<forall>j. k < j \<and> j \<le> 255 \<longrightarrow> c (candidate h sfx seeds pid j)"
      unfolding Pair derives_iff by blast+
    from bump_search_complete [OF d(1) d(3) d(4)] d(2)
    show "findProgramAddressSync h c sfx seeds pid = Inr r"
      by (simp add: findProgramAddressSync_def Pair)
  qed
qed

text \<open>
  Claim C7. Address derivation is deterministic: for every program identifier and every
  seed list, two calls of the derivation function with identical inputs give the same
  (address, bump) pair. Two pairs that each meet the contract of a derivation (\<open>derives\<close>)
  for identical inputs are equal, and the derivation function returns that pair.
\<close>

theorem derive_deterministic:
  "programId = programId' \<Longrightarrow> seeds = seeds' \<Longrightarrow>
   derives hash onCurve suffix seeds programId r \<Longrightarrow>
   derives hash onCurve suffix seeds' programId' r' \<Longrightarrow>
   r = r'
   \<and> findProgramAddressSync hash onCurve suffix seeds programId = Inr r
   \<and> findProgramAddressSync hash onCurve suffix seeds' programId' = Inr r'"
  using derives_unique [of hash onCurve suffix seeds programId r r']
  by (simp add: findProgramAddressSync_derives)

theorem derive_deterministic_witness:
  "derives (\<lambda>bs. of_nat (unat (bs ! 2))) (\<lambda>k. k = 255) [] [ [1, 2] ] 7 (254, 254)
   \<and> findProgramAddressSync (\<lambda>bs. of_nat (unat (bs ! 2))) (\<lambda>k. k = 255) [] [ [1, 2] ] 7
     = Inr (254, 254)"
proof -
  have d: "derives (\<lambda>bs. of_nat (unat (bs ! 2))) (\<lambda>k. k = 255) [] [ [1, 2] ] 7 (254, 254)"
    by (simp add: derives_def candidate_def)
  from derive_deterministic [OF refl refl d d] d show ?thesis by simp
qed

section \<open>Properties of the lookups\<close>

lemma try_catch_null_snd:
  "snd (try_catch_null msg body) = Inr (case body of Inl e \<Rightarrow> None | Inr r \<Rightarrow> r)"
  by (simp add: try_catch_null_def split: sum.splits)

lemma lookup_None_iff:
  "(case bindE pda (\<lambda>(address, bump). bindE (fetch address) (\<lambda>accountInfo.
       case accountInfo of None \<Rightarrow> Inr None
       | Some info \<Rightarrow> bindE (parse (ai_data info)) (\<lambda>r. Inr (Some r))))
    of Inl e \<Rightarrow> None | Inr r \<Rightarrow> r) = None
   \<longleftrightarrow> collapsed pda fetch parse"
  by (auto simp: collapsed_def bindE_def isl_def split: sum.splits option.splits prod.splits)

lemmas getter_defs = getConfig_def getProduct_def getReview_def getUser_def getDailyClaims_def

lemma lookup_outcome_eq:
  "try_catch_null msg
     (bindE pda (\<lambda>(address, bump). bindE (fetch address) (\<lambda>accountInfo.
        case accountInfo of None \<Rightarrow> Inr None
        | Some info \<Rightarrow> bindE (parse (ai_data info)) (\<lambda>r. Inr (Some r)))))
   = lookup_outcome msg pda fetch parse"
  by (auto simp: lookup_outcome_def try_catch_null_def bindE_def
      split: sum.splits option.splits prod.splits)

text \<open>
  Claim C2, as the code has it. Every lookup of the facade (getConfig, getProduct,
  getReview, getUser, getDailyClaims) returns a value and never surfaces an error: the
  catch clause writes the error to the console and returns null. It returns null exactly
  when the account is missing or when the derivation, the transport or the decoder
  throws; in the three throwing cases, and only then, the console gets one line with the
  lookup's message and the error; the record returned is the one decoded from the bytes
  fetched at the derived address.
\<close>

theorem lookups_collapse_errors:
  "(\<exists>r. snd (getConfig P this) = Inr r)
   \<and> (\<exists>r. snd (getProduct P this p) = Inr r)
   \<and> (\<exists>r. snd (getReview P this p reviewer) = Inr r)
   \<and> (\<exists>r. snd (getUser P this u) = Inr r)
   \<and> (\<exists>r. snd (getDailyClaims P this u date) = Inr r)
   \<and> (snd (getConfig P this) = Inr None \<longleftrightarrow>
        collapsed (getConfigPDA (findProgramAddress P) (client_programId this))
          (connection_getAccountInfo this) parseConfigData)
   \<and> (snd (getProduct P this p) = Inr None \<longleftrightarrow>
        collapsed (getProductPDA (findProgramAddress P) (client_programId this) p)
          (connection_getAccountInfo this) (parseProductData (TextDecoder_decode P)))
   \<and> (snd (getReview P this p reviewer) = Inr None \<longleftrightarrow>
        collapsed (getReviewPDA (findProgramAddress P) (client_programId this) p reviewer)
          (connection_getAccountInfo this) (parseReviewData (TextDecoder_decode P)))
   \<and> (snd (getUser P this u) = Inr None \<longleftrightarrow>
        collapsed (getUserPDA (findProgramAddress P) (client_programId this) u)
          (connection_getAccountInfo this) parseUserData)
   \<and> (snd (getDailyClaims P this u date) = Inr None \<longleftrightarrow>
        collapsed
          (getDailyClaimsPDA (findProgramAddress P) (client_programId this) u
             (case date of
                None \<Rightarrow> getCurrentDateString P
              | Some d \<Rightarrow> if d = [] then getCurrentDateString P else d))
          (connection_getAccountInfo this) (parseDailyClaimsData (TextDecoder_decode P)))
   \<and> getConfig P this
     = lookup_outcome ''Error fetching config:''
         (getConfigPDA (findProgramAddress P) (client_programId this))
         (connection_getAccountInfo this) parseConfigData
   \<and> getProduct P this p
     = lookup_outcome ''Error fetching product:''
         (getProductPDA (findProgramAddress P) (client_programId this) p)
         (connection_getAccountInfo this) (parseProductData (TextDecoder_decode P))
   \<and> getReview P this p reviewer
     = lookup_outcome ''Error fetching review:''
         (getReviewPDA (findProgramAddress P) (client_programId this) p reviewer)
         (connection_getAccountInfo this) (parseReviewData (TextDecoder_decode P))
   \<and> getUser P this u
     = lookup_outcome ''Error fetching user:''
         (getUserPDA (findProgramAddress P) (client_programId this) u)
         (connection_getAccountInfo this) parseUserData
   \<and> getDailyClaims P this u date
     = lookup_outcome ''Error fetching daily claims:''
         (getDailyClaimsPDA (findProgramAddress P) (client_programId this) u
            (case date of
               None \<Rightarrow> getCurrentDateString P
             | Some d \<Rightarrow> if d = [] then getCurrentDateString P else d))
         (connection_getAccountInfo this) (parseDailyClaimsData (TextDecoder_decode P))
   \<and> (\<exists>r. snd (lookup_outcome msg pda fetch parse) = Inr r)
   \<and> (snd (lookup_outcome msg pda fetch parse) = Inr None
        \<longleftrightarrow> collapsed pda fetch parse)
   \<and> (lookup_outcome msg pda fetch parse = ([], Inr (Some r))
        \<longleftrightarrow> (\<exists>address bump info. pda = Inr (address, bump)
               \<and> fetch address = Inr (Some info) \<and> parse (ai_data info) = Inr r))
   \<and> (lookup_outcome msg pda fetch parse = ([(msg, e)], Inr None)
        \<longleftrightarrow> pda = Inl e
            \<or> (\<exists>address bump. pda = Inr (address, bump)
                 \<and> (fetch address = Inl e
                     \<or> (\<exists>info. fetch address = Inr (Some info)
                           \<and> parse (ai_data info) = Inl e))))
   \<and> (lookup_outcome msg pda fetch parse = ([], Inr None)
        \<longleftrightarrow> (\<exists>address bump. pda = Inr (address, bump) \<and> fetch address = Inr None))"
proof -
  have old: "(\<exists>r. snd (getConfig P this) = Inr r)
   \<and> (\<exists>r. snd (getProduct P this p) = Inr r)
   \<and> (\<exists>r. snd (getReview P this p reviewer) = Inr r)
   \<and> (\<exists>r. snd (getUser P this u) = Inr r)
   \<and> (\<exists>r. snd (getDailyClaims P this u date) = Inr r)
   \<and> (snd (getConfig P this) = Inr None \<longleftrightarrow>
        collapsed (getConfigPDA (findProgramAddress P) (client_programId this))
          (connection_getAccountInfo this) parseConfigData)
   \<and> (snd (getProduct P this p) = Inr None \<longleftrightarrow>
        collapsed (getProductPDA (findProgramAddress P) (client_programId this) p)
          (connection_getAccountInfo this) (parseProductData (TextDecoder_decode P)))
   \<and> (snd (getReview P this p reviewer) = Inr None \<longleftrightarrow>
        collapsed (getReviewPDA (findProgramAddress P) (client_programId this) p reviewer)
          (connection_getAccountInfo this) (parseReviewData (TextDecoder_decode P)))
   \<and> (snd (getUser P this u) = Inr None \<longleftrightarrow>
        collapsed (getUserPDA (findProgramAddress P) (client_programId this) u)
          (connection_getAccountInfo this) parseUserData)
   \<and> (snd (getDailyClaims P this u date) = Inr None \<longleftrightarrow>
        collapsed
          (getDailyClaimsPDA (findProgramAddress P) (client_programId this) u
             (case date of
                None \<Rightarrow> getCurrentDateString P
              | Some d \<Rightarrow> if d = [] then getCurrentDateString P else d))
          (connection_getAccountInfo this) (parseDailyClaimsData (TextDecoder_decode P)))"
    by (simp add: getter_defs try_catch_null_snd lookup_None_iff Let_def)
  have new: "getConfig P this
     = lookup_outcome ''Error fetching config:''
         (getConfigPDA (findProgramAddress P) (client_programId this))
         (connection_getAccountInfo this) parseConfigData
   \<and> getProduct P this p
     = lookup_outcome ''Error fetching product:''
         (getProductPDA (findProgramAddress P) (client_programId this) p)
         (connection_getAccountInfo this) (parseProductData (TextDecoder_decode P))
   \<and> getReview P this p reviewer
     = lookup_outcome ''Error fetching review:''
         (getReviewPDA (findProgramAddress P) (client_programId this) p reviewer)
         (connection_getAccountInfo this) (parseReviewData (TextDecoder_decode P))
   \<and> getUser P this u
     = lookup_outcome ''Error fetching user:''
         (getUserPDA (findProgramAddress P) (client_programId this) u)
         (connection_getAccountInfo this) parseUserData
   \<and> getDailyClaims P this u date
     = lookup_outcome ''Error fetching daily claims:''
         (getDailyClaimsPDA (findProgramAddress P) (client_programId this) u
            (case date of
               None \<Rightarrow> getCurrentDateString P
             | Some d \<Rightarrow> if d = [] then getCurrentDateString P else d))
         (connection_getAccountInfo this) (parseDailyClaimsData (TextDecoder_decode P))
   \<and> (\<exists>r. snd (lookup_outcome msg pda fetch parse) = Inr r)
   \<and> (snd (lookup_outcome msg pda fetch parse) = Inr None
        \<longleftrightarrow> collapsed pda fetch parse)
   \<and> (lookup_outcome msg pda fetch parse = ([], Inr (Some r))
        \<longleftrightarrow> (\<exists>address bump info. pda = Inr (address, bump)
               \<and> fetch address = Inr (Some info) \<and> parse (ai_data info) = Inr r))
   \<and> (lookup_outcome msg pda fetch parse = ([(msg, e)], Inr None)
        \<longleftrightarrow> pda = Inl e
            \<or> (\<exists>address bump. pda = Inr (address, bump)
                 \<and> (fetch address = Inl e
                     \<or> (\<exists>info. fetch address = Inr (Some info)
                           \<and> parse (ai_data info) = Inl e))))
   \<and> (lookup_outcome msg pda fetch parse = ([], Inr None)
        \<longleftrightarrow> (\<exists>address bump. pda = Inr (address, bump) \<and> fetch address = Inr None))"
  proof (intro conjI)
    show "\<exists>r. snd (lookup_outcome msg pda fetch parse) = Inr r"
      by (auto simp: lookup_outcome_def split: sum.splits option.splits prod.splits)
    show "snd (lookup_outcome msg pda fetch parse) = Inr None \<longleftrightarrow> collapsed pda fetch parse"
      by (auto simp: lookup_outcome_def collapsed_def isl_def
          split: sum.splits option.splits prod.splits)
    show "lookup_outcome msg pda fetch parse = ([], Inr (Some r))
          \<longleftrightarrow> (\<exists>address bump info. pda = Inr (address, bump)
                 \<and> fetch address = Inr (Some info) \<and> parse (ai_data info) = Inr r)"
      by (auto simp: lookup_outcome_def split: sum.splits option.splits prod.splits)
    show "lookup_outcome msg pda fetch parse = ([(msg, e)], Inr None)
          \<longleftrightarrow> pda = Inl e
              \<or> (\<exists>address bump. pda = Inr (address, bump)
                   \<and> (fetch address = Inl e
                       \<or> (\<exists>info. fetch address = Inr (Some info)
                             \<and> parse (ai_data info) = Inl e)))"
      by (auto simp: lookup_outcome_def split: sum.splits option.splits prod.splits)
    show "lookup_outcome msg pda fetch parse = ([], Inr None)
          \<longleftrightarrow> (\<exists>address bump. pda = Inr (address, bump) \<and> fetch address = Inr None)"
      by (auto simp: lookup_outcome_def split: sum.splits option.splits prod.splits)
  qed (simp_all add: getConfig_def getProduct_def getReview_def getUser_def getDailyClaims_def
        lookup_outcome_eq Let_def)
  from old new show ?thesis
    by (elim conjE) (intro conjI; assumption)
qed

text \<open>
  The claim as the specification states it (null if and only if the blob is missing or
  empty, every other failure surfaced as an error) fails: for an account whose blob is
  the single byte 1, and for a transport that throws, getConfig returns null.
\<close>

theorem getConfig_null_counterexample:
  "snd (getConfig example_platform
          \<lparr>connection_getAccountInfo = one_byte_account, client_programId = 7\<rparr>) = Inr None
   \<and> one_byte_account 8
       = Inr (Some \<lparr>ai_data = \<lparr>buffer = [1], byteOffset = 0, byteLength = 1\<rparr>\<rparr>)
   \<and> getConfigPDA example_deriver 7 = Inr (8, 255)
   \<and> snd (getConfig example_platform
          \<lparr>connection_getAccountInfo = failing_transport, client_programId = 7\<rparr>) = Inr None
   \<and> failing_transport 8 = Inl Error"
  by (simp add: getConfig_def try_catch_null_def getConfigPDA_def example_platform_def
      example_deriver_def one_byte_account_def failing_transport_def parseConfigData_def
      getUint8_def getBigUint64_def view_read_def new_PublicKey_def slice_def contents_def
      Let_def)

lemma getCurrentDateString_prefix:
  "Date_toISOString P = d @ 84 # rest \<Longrightarrow> 84 \<notin> set d \<Longrightarrow> getCurrentDateString P = d"
proof -
  assume iso: "Date_toISOString P = d @ 84 # rest" and d: "84 \<notin> set d"
  have "takeWhile (\<lambda>c. c \<noteq> 84) (d @ 84 # rest) = d @ takeWhile (\<lambda>c. c \<noteq> 84) (84 # rest)"
    using d by (intro takeWhile_append2) auto
  then show ?thesis
    by (simp add: getCurrentDateString_def iso)
qed

text \<open>
  Claim C9. In the daily-claims lookup the empty string as explicit date behaves as no
  date at all: both derive the address from the seeds "daily_claims", the user address
  and today's UTC date, the text of the ISO time stamp before its \<open>T\<close> (YYYY-MM-DD),
  since the fallback is taken for every falsy date.
\<close>

theorem empty_date_is_today:
  "getDailyClaims P this u (Some []) = getDailyClaims P this u None
   \<and> getDailyClaims P this u None = getDailyClaims P this u (Some (getCurrentDateString P))
   \<and> getDailyClaims P this u None
     = lookup_outcome ''Error fetching daily claims:''
         (findProgramAddress P
            [ [100, 97, 105, 108, 121, 95, 99, 108, 97, 105, 109, 115], toBuffer u,
              utf8 (getCurrentDateString P)]
            (client_programId this))
         (connection_getAccountInfo this) (parseDailyClaimsData (TextDecoder_decode P))
   \<and> getDailyClaims P this u (Some [])
     = lookup_outcome ''Error fetching daily claims:''
         (findProgramAddress P
            [ [100, 97, 105, 108, 121, 95, 99, 108, 97, 105, 109, 115], toBuffer u,
              utf8 (getCurrentDateString P)]
            (client_programId this))
         (connection_getAccountInfo this) (parseDailyClaimsData (TextDecoder_decode P))
   \<and> getCurrentDateString P = takeWhile (\<lambda>c. c \<noteq> 84) (Date_toISOString P)
   \<and> (Date_toISOString P = d @ 84 # rest \<and> 84 \<notin> set d \<longrightarrow> getCurrentDateString P = d)
   \<and> getCurrentDateString example_platform = lit ''2026-11-03''"
proof (intro conjI impI)
  show "Date_toISOString P = d @ 84 # rest \<and> 84 \<notin> set d \<Longrightarrow> getCurrentDateString P = d"
    using getCurrentDateString_prefix by blast
  show "getCurrentDateString example_platform = lit ''2026-11-03''"
    by (simp add: getCurrentDateString_def example_platform_def lit_def)
qed (simp_all add: getDailyClaims_def lookup_outcome_eq getDailyClaimsPDA_def
      DAILY_CLAIMS_SEED_def utf8_eval getCurrentDateString_def)

theorem empty_date_is_today_witness:
  "Date_toISOString example_platform = lit ''2026-11-03'' @ 84 # lit ''13:48:00.000Z''
   \<and> 84 \<notin> set (lit ''2026-11-03'')
   \<and> getCurrentDateString example_platform = lit ''2026-11-03''
   \<and> getDailyClaims example_platform
        \<lparr>connection_getAccountInfo = one_byte_account, client_programId = 7\<rparr> 5 (Some [])
     = ([(''Error fetching daily claims:'', RangeError)], Inr None)"
proof -
  have a: "Date_toISOString example_platform = lit ''2026-11-03'' @ 84 # lit ''13:48:00.000Z''"
    by (simp add: example_platform_def lit_def)
  have b: "84 \<notin> set (lit ''2026-11-03'')"
    by (simp add: lit_def)
  have c: "parseDailyClaimsData example_decode \<lparr>buffer = [1], byteOffset = 0, byteLength = 1\<rparr>
           = Inl RangeError"
    by (simp add: parseDailyClaimsData_def getUint32_def view_read_def new_PublicKey_def
        Buffer_slice_def contents_def Let_def)
  have d: "TextDecoder_decode example_platform = example_decode"
    "findProgramAddress example_platform = example_deriver"
    by (simp_all add: example_platform_def)
  note t = empty_date_is_today
    [of example_platform "\<lparr>connection_getAccountInfo = one_byte_account, client_programId = 7\<rparr>"
        5 "lit ''2026-11-03''" "lit ''13:48:00.000Z''"]
  have today: "getCurrentDateString example_platform = lit ''2026-11-03''"
    using t a b by (elim conjE) simp
  have "getDailyClaims example_platform
        \<lparr>connection_getAccountInfo = one_byte_account, client_programId = 7\<rparr> 5 (Some [])
     = lookup_outcome ''Error fetching daily claims:''
         (findProgramAddress example_platform
            [ [100, 97, 105, 108, 121, 95, 99, 108, 97, 105, 109, 115], toBuffer 5,
              utf8 (getCurrentDateString example_platform)]
            (client_programId
               \<lparr>connection_getAccountInfo = one_byte_account, client_programId = 7\<rparr>))
         (connection_getAccountInfo
            \<lparr>connection_getAccountInfo = one_byte_account, client_programId = 7\<rparr>)
         (parseDailyClaimsData (TextDecoder_decode example_platform))"
    using t by (elim conjE)
  then have "getDailyClaims example_platform
        \<lparr>connection_getAccountInfo = one_byte_account, client_programId = 7\<rparr> 5 (Some [])
     = ([(''Error fetching daily claims:'', RangeError)], Inr None)"
    using c d by (simp add: lookup_outcome_def example_deriver_def one_byte_account_def)
  with a b today show ?thesis by simp
qed

section \<open>Properties of the record decoder\<close>

lemma le_nat_replicate_zero: "le_nat (replicate n 0) = 0"
  by (induction n) simp_all

lemma view_read_Inr: "view_read view off n = Inr bs \<Longrightarrow> off + n \<le> length view"
  by (simp add: view_read_def split: if_splits)

lemma getUint8_Inr: "getUint8 view off = Inr v \<Longrightarrow> off + 1 \<le> length view"
  by (auto simp: getUint8_def bindE_Inr_iff dest: view_read_Inr)

lemma getUint32_Inr: "getUint32 view off = Inr v \<Longrightarrow> off + 4 \<le> length view"
  by (auto simp: getUint32_def bindE_Inr_iff dest: view_read_Inr)

lemma getBigUint64_Inr: "getBigUint64 view off = Inr v \<Longrightarrow> off + 8 \<le> length view"
  by (auto simp: getBigUint64_def bindE_Inr_iff dest: view_read_Inr)

lemma getBigInt64_Inr: "getBigInt64 view off = Inr v \<Longrightarrow> off + 8 \<le> length view"
  by (auto simp: getBigInt64_def bindE_Inr_iff Let_def dest: view_read_Inr)

lemma parseConfigData_Inr: "parseConfigData d = Inr r \<Longrightarrow> 66 \<le> length (buffer d)"
  by (auto simp: parseConfigData_def bindE_Inr_iff Let_def dest!: getUint8_Inr)

lemma parseUserData_Inr: "parseUserData d = Inr r \<Longrightarrow> 61 \<le> length (buffer d)"
  by (auto simp: parseUserData_def bindE_Inr_iff Let_def dest!: getUint32_Inr)

lemma parseProductData_Inr:
  "parseProductData td d = Inr r \<Longrightarrow>
   \<exists>l1 l2. getUint32 (buffer d) 1 = Inr l1 \<and> getUint32 (buffer d) (45 + l1) = Inr l2
          \<and> 58 + l1 + l2 \<le> length (buffer d)"
  by (auto simp: parseProductData_def bindE_Inr_iff Let_def add.commute add.left_commute
      dest!: getBigInt64_Inr)

lemma parseReviewData_Inr:
  "parseReviewData td d = Inr r \<Longrightarrow>
   \<exists>l1 l2. getUint32 (buffer d) 1 = Inr l1 \<and> getUint32 (buffer d) (38 + l1) = Inr l2
          \<and> 58 + l1 + l2 \<le> length (buffer d)"
  by (auto simp: parseReviewData_def bindE_Inr_iff Let_def add.commute add.left_commute
      dest!: getBigInt64_Inr)

lemma parseDailyClaimsData_Inr:
  "parseDailyClaimsData td d = Inr r \<Longrightarrow>
   \<exists>l. getUint32 (buffer d) 33 = Inr l \<and> 38 + l \<le> length (buffer d)"
  by (auto simp: parseDailyClaimsData_def bindE_Inr_iff Let_def add.commute add.left_commute
      dest!: getUint8_Inr)


lemma le_nat_bound: "le_nat bs < 256 ^ length bs"
proof (induction bs)
  case Nil
  show ?case by simp
next
  case (Cons b bs)
  have "unat b < 2 ^ LENGTH(8)" by (rule unsigned_less)
  then have "unat b < 256" by simp
  moreover have "le_nat bs + 1 \<le> 256 ^ length bs" using Cons by simp
  then have "256 * (le_nat bs + 1) \<le> 256 * 256 ^ length bs"
    by (rule mult_le_mono2)
  ultimately show ?case by simp
qed

lemma Buffer_slice_length: "length (Buffer_slice d start stop) \<le> stop - start"
  by (simp add: Buffer_slice_def Let_def)

lemma new_PublicKey_Buffer_slice:
  assumes "stop \<le> start + 32"
  shows "new_PublicKey (Buffer_slice d start stop) \<noteq> Inl e"
proof -
  let ?bs = "Buffer_slice d start stop"
  have "length ?bs \<le> 32" using Buffer_slice_length [of d start stop] assms by simp
  then have "(256::nat) ^ length ?bs \<le> 256 ^ 32"
    by (intro power_increasing) simp_all
  moreover have "le_nat (rev ?bs) < 256 ^ length ?bs"
    using le_nat_bound [of "rev ?bs"] by simp
  ultimately have "le_nat (rev ?bs) < 256 ^ 32" by (rule less_le_trans [rotated])
  then have "le_nat (rev ?bs) < 2 ^ 256" by simp
  then show ?thesis by (simp add: new_PublicKey_def Let_def)
qed

lemma reads_RangeError:
  "getUint8 view off = Inl e \<Longrightarrow> e = RangeError"
  "getUint32 view off = Inl e \<Longrightarrow> e = RangeError"
  "getBigUint64 view off = Inl e \<Longrightarrow> e = RangeError"
  "getBigInt64 view off = Inl e \<Longrightarrow> e = RangeError"
  by (auto simp: getUint8_def getUint32_def getBigUint64_def getBigInt64_def view_read_def
      bindE_def Let_def split: if_splits)

lemma bindE_Inl_iff:
  "bindE m f = Inl e \<longleftrightarrow> m = Inl e \<or> (\<exists>x. m = Inr x \<and> f x = Inl e)"
  by (cases m) (simp_all add: bindE_def)

lemma parseConfigData_Inl: "parseConfigData d = Inl e \<Longrightarrow> e = RangeError"
  by (auto simp: parseConfigData_def bindE_Inl_iff Let_def new_PublicKey_Buffer_slice
      dest: reads_RangeError)

lemma parseUserData_Inl: "parseUserData d = Inl e \<Longrightarrow> e = RangeError"
  by (auto simp: parseUserData_def bindE_Inl_iff Let_def new_PublicKey_Buffer_slice
      dest: reads_RangeError)

lemma parseDailyClaimsData_Inl: "parseDailyClaimsData td d = Inl e \<Longrightarrow> e = RangeError"
  by (auto simp: parseDailyClaimsData_def bindE_Inl_iff Let_def new_PublicKey_Buffer_slice
      dest: reads_RangeError)

lemma parseProductData_Inl: "parseProductData td d = Inl e \<Longrightarrow> e = RangeError"
  by (auto simp: parseProductData_def bindE_Inl_iff Let_def new_PublicKey_Buffer_slice
      dest: reads_RangeError)

lemma parseReviewData_Inl: "parseReviewData td d = Inl e \<Longrightarrow> e = RangeError"
  by (auto simp: parseReviewData_def bindE_Inl_iff Let_def new_PublicKey_Buffer_slice
      dest: reads_RangeError)

lemma isl_RangeError:
  "(\<And>e. r = Inl e \<Longrightarrow> e = RangeError) \<Longrightarrow> (\<And>x. r \<noteq> Inr x) \<Longrightarrow> r = Inl RangeError"
  by (cases r) auto

text \<open>
  On a blob that is its whole ArrayBuffer the decoders fail with a RangeError when the
  blob is shorter than the smallest record of its kind, or when a length prefix points
  beyond its end.
\<close>

lemma exact_short_blob_fails:
  assumes "exact d"
  shows "byteLength d < 66 \<Longrightarrow> parseConfigData d = Inl RangeError"
    and "byteLength d < 58 \<Longrightarrow> parseProductData td d = Inl RangeError"
    and "byteLength d < 58 \<Longrightarrow> parseReviewData td d = Inl RangeError"
    and "byteLength d < 61 \<Longrightarrow> parseUserData d = Inl RangeError"
    and "byteLength d < 38 \<Longrightarrow> parseDailyClaimsData td d = Inl RangeError"
proof -
  have n: "length (buffer d) = byteLength d" using assms by (simp add: exact_def)
  show "byteLength d < 66 \<Longrightarrow> parseConfigData d = Inl RangeError"
    using n by (intro isl_RangeError) (auto dest: parseConfigData_Inl parseConfigData_Inr)
  show "byteLength d < 58 \<Longrightarrow> parseProductData td d = Inl RangeError"
    using n by (intro isl_RangeError) (auto dest: parseProductData_Inl parseProductData_Inr)
  show "byteLength d < 58 \<Longrightarrow> parseReviewData td d = Inl RangeError"
    using n by (intro isl_RangeError) (auto dest: parseReviewData_Inl parseReviewData_Inr)
  show "byteLength d < 61 \<Longrightarrow> parseUserData d = Inl RangeError"
    using n by (intro isl_RangeError) (auto dest: parseUserData_Inl parseUserData_Inr)
  show "byteLength d < 38 \<Longrightarrow> parseDailyClaimsData td d = Inl RangeError"
    using n
    by (intro isl_RangeError) (auto dest: parseDailyClaimsData_Inl parseDailyClaimsData_Inr)
qed

lemma exact_prefix_overrun_fails:
  assumes "exact d"
  shows "getUint32 (buffer d) 1 = Inr l \<Longrightarrow> byteLength d < 5 + l
         \<Longrightarrow> parseProductData td d = Inl RangeError"
    and "getUint32 (buffer d) 1 = Inr l \<Longrightarrow> getUint32 (buffer d) (45 + l) = Inr l'
         \<Longrightarrow> byteLength d < 49 + l + l' \<Longrightarrow> parseProductData td d = Inl RangeError"
    and "getUint32 (buffer d) 1 = Inr l \<Longrightarrow> byteLength d < 5 + l
         \<Longrightarrow> parseReviewData td d = Inl RangeError"
    and "getUint32 (buffer d) 1 = Inr l \<Longrightarrow> getUint32 (buffer d) (38 + l) = Inr l'
         \<Longrightarrow> byteLength d < 42 + l + l' \<Longrightarrow> parseReviewData td d = Inl RangeError"
    and "getUint32 (buffer d) 33 = Inr l \<Longrightarrow> byteLength d < 37 + l
         \<Longrightarrow> parseDailyClaimsData td d = Inl RangeError"
proof -
  have n: "length (buffer d) = byteLength d" using assms by (simp add: exact_def)
  show "getUint32 (buffer d) 1 = Inr l \<Longrightarrow> byteLength d < 5 + l
         \<Longrightarrow> parseProductData td d = Inl RangeError"
    using n by (intro isl_RangeError) (auto dest: parseProductData_Inl parseProductData_Inr)
  show "getUint32 (buffer d) 1 = Inr l \<Longrightarrow> getUint32 (buffer d) (45 + l) = Inr l'
         \<Longrightarrow> byteLength d < 49 + l + l' \<Longrightarrow> parseProductData td d = Inl RangeError"
    using n by (intro isl_RangeError) (auto dest: parseProductData_Inl parseProductData_Inr)
  show "getUint32 (buffer d) 1 = Inr l \<Longrightarrow> byteLength d < 5 + l
         \<Longrightarrow> parseReviewData td d = Inl RangeError"
    using n by (intro isl_RangeError) (auto dest: parseReviewData_Inl parseReviewData_Inr)
  show "getUint32 (buffer d) 1 = Inr l \<Longrightarrow> getUint32 (buffer d) (38 + l) = Inr l'
         \<Longrightarrow> byteLength d < 42 + l + l' \<Longrightarrow> parseReviewData td d = Inl RangeError"
    using n by (intro isl_RangeError) (auto dest: parseReviewData_Inl parseReviewData_Inr)
  show "getUint32 (buffer d) 33 = Inr l \<Longrightarrow> byteLength d < 37 + l
         \<Longrightarrow> parseDailyClaimsData td d = Inl RangeError"
    using n
    by (intro isl_RangeError) (auto dest: parseDailyClaimsData_Inl parseDailyClaimsData_Inr)
qed

text \<open>
  Claim C1. For every record kind, decoding a blob shorter than the smallest record, or
  one whose length prefix points beyond its end, is a decode failure, and the decoder
  reads no byte outside the blob. The decoders read the fixed-width fields through
  \<open>new DataView(data.buffer)\<close>, a view of the whole ArrayBuffer from its first byte,
  while \<open>data.slice\<close> is relative to the blob. For a blob that is a window on a larger
  ArrayBuffer the two disagree: below, a blob of the two bytes 7 7 at offset 66 decodes
  as an initialised Config, read from the 66 bytes in front of it, and a blob of five
  bytes whose length prefix is \<open>2 ^ 32 - 1\<close> decodes as a Product.
\<close>

theorem decoders_read_outside_blob:
  "wf_Buffer \<lparr>buffer = 1 # replicate 65 0 @ [7, 7], byteOffset = 66, byteLength = 2\<rparr>
   \<and> contents \<lparr>buffer = 1 # replicate 65 0 @ [7, 7], byteOffset = 66, byteLength = 2\<rparr>
       = [7, 7]
   \<and> parseConfigData \<lparr>buffer = 1 # replicate 65 0 @ [7, 7], byteOffset = 66, byteLength = 2\<rparr>
       = Inr \<lparr>cfg_isInitialized = True, cfg_authority = 7, cfg_totalProducts = 0,
              cfg_totalReviews = 0, cfg_totalUsers = 0, cfg_totalTransactions = 0,
              cfg_version = 0\<rparr>
   \<and> wf_Buffer \<lparr>buffer = replicate 58 0 @ [1, 255, 255, 255, 255], byteOffset = 58,
                byteLength = 5\<rparr>
   \<and> contents \<lparr>buffer = replicate 58 0 @ [1, 255, 255, 255, 255], byteOffset = 58,
                byteLength = 5\<rparr> = [1, 255, 255, 255, 255]
   \<and> parseProductData example_decode
        \<lparr>buffer = replicate 58 0 @ [1, 255, 255, 255, 255], byteOffset = 58, byteLength = 5\<rparr>
       = Inr \<lparr>prd_productId = [], prd_owner = 0, prd_totalScores = 0, prd_totalReviews = 0,
              prd_metadataUri = [], prd_status = False, prd_createdAt = 0\<rparr>"
  by (simp add: wf_Buffer_def contents_def parseConfigData_def parseProductData_def
      getUint8_def getUint32_def getBigUint64_def getBigInt64_def
      view_read_def new_PublicKey_def Buffer_slice_def Number_def Let_def
      le_nat_replicate_zero example_decode_def)

end
